theory Spec2Isabelle
  imports Main
begin

section \<open>The room game-state machine of the Coup server\<close>

text \<open>
  A shallow embedding of the game engine of the server (the functions
  \<^verbatim>\<open>getPublicGameState\<close>, \<^verbatim>\<open>performAction\<close>, \<^verbatim>\<open>respondToAction\<close>,
  \<^verbatim>\<open>handleChallenge\<close>, \<^verbatim>\<open>handleBlock\<close>, \<^verbatim>\<open>challengeBlock\<close>, \<^verbatim>\<open>resolveAction\<close>,
  \<^verbatim>\<open>loseInfluence\<close>, \<^verbatim>\<open>completeExchange\<close>, \<^verbatim>\<open>showCardToExaminer\<close>, \<^verbatim>\<open>nextTurn\<close>,
  \<^verbatim>\<open>checkWinCondition\<close>, \<^verbatim>\<open>clearActionAndTimeout\<close> and the response-window callbacks) and of
  the socket handlers \<^verbatim>\<open>disconnect\<close> and \<^verbatim>\<open>attemptReconnect\<close> with the forfeit callback.

  Conventions of the embedding.
  \<^item> A JavaScript object is a record; a function that mutates the room takes the room and
    returns the new room.  A player object found with \<^verbatim>\<open>find\<close> and then mutated is the
    first list element that satisfies the test, so the mutation is an update of that element.
  \<^item> Reading a property of \<^verbatim>\<open>undefined\<close> or \<^verbatim>\<open>null\<close> throws a \<^verbatim>\<open>TypeError\<close>; such an
    operation returns \<open>Inl TypeError\<close>.
  \<^item> \<^verbatim>\<open>deck.sort(() => Math.random() - 0.5)\<close> returns the deck in some order; the order
    produced is the argument \<open>sh\<close> of the operations that shuffle.
  \<^item> \<^verbatim>\<open>setTimeout\<close> and \<^verbatim>\<open>clearTimeout\<close> act on the table of scheduled callbacks of the
    runtime, kept in the room as \<open>timers\<close>; a handle is a number.
  \<^item> Fields the engine only writes are left out: the \<^verbatim>\<open>gameStats\<close> counters, the text and
    the time stamp of a log entry (its type and character tag are kept), the account
    data of a player, and the placement records (\<^verbatim>\<open>eliminationOrder\<close>, \<^verbatim>\<open>gameEndTime\<close>).  \<^verbatim>\<open>emitToRoom\<close> sends snapshots and changes no state, so it
    is left out as well.
\<close>

subsection \<open>Data\<close>

datatype js_error = TypeError

record influence =
  card :: string
  revealed :: bool

record response =
  rtype :: string
  rblockCard :: "string option"

datatype phase = Waiting | Block

datatype room_state = Lobby | Playing | Ended

text \<open>
  The callbacks passed to \<^verbatim>\<open>setTimeout\<close>, with the values their closures capture: the
  forfeit callback captures the index of the player and the key of its timer, the callback
  of a resumed block window captures the card of the block.
\<close>

datatype callback =
    ResponseWindow
  | BlockWindow
  | ForfeitGrace nat string
  | ResumedBlockWindow "string option"

record log_entry =
  ltype :: string
  character :: "string option"

record player =
  pid :: string
  persistentId :: string
  socketId :: string
  name :: string
  anonymousName :: "string option"
  coins :: int
  influences :: "influence list"
  alive :: bool
  disconnected :: bool
  hasLeft :: bool
  mustRevealInfluence :: bool
  influencesToLose :: int
  influenceLossCausedBy :: "string option"
  mustChooseExchange :: bool
  exchangeCards :: "string list option"
  mustChooseExamine :: bool
  mustShowCardToExaminer :: bool
  examineTargetId :: "string option"
  examinedBy :: "string option"
  examinedCard :: "string option"
  examinedCardIndex :: "int option"

record action_in_progress =
  action :: string
  playerId :: string
  playerName :: string
  targetId :: "string option"
  targetName :: "string option"
  canChallenge :: bool
  canBlock :: bool
  blocker :: "string list option"
  responses :: "(string \<times> response) list"
  phase :: phase
  totalResponders :: int
  respondedCount :: int
  blockableByTarget :: bool
  targetCanBlock :: "string option"
  pausedForDisconnection :: bool
  responseTimeout :: "nat option"
  blockerId :: "string option"
  blockCard :: "string option"

record room =
  code :: string
  players :: "player list"
  state :: room_state
  deck :: "string list"
  currentPlayerIndex :: nat
  actionInProgress :: "action_in_progress option"
  gameLog :: "log_entry list"
  pendingResponses :: "string list"
  useInquisitor :: bool
  anonymousMode :: bool
  roomResponseTimeout :: "nat option"
  winnerId :: "string option"
  timers :: "(nat \<times> callback) list"
  timerSeq :: nat
  disconnectionTimers :: "(string \<times> nat) list"

record result =
  success :: bool
  error :: "string option"

definition ok :: result where
  "ok = \<lparr>success = True, error = None\<rparr>"

definition failure :: "string \<Rightarrow> result" where
  "failure e = \<lparr>success = False, error = Some e\<rparr>"

text \<open>A value used as a condition: \<^verbatim>\<open>undefined\<close>, \<^verbatim>\<open>null\<close> and the empty string are falsy.\<close>

definition truthy :: "string option \<Rightarrow> bool" where
  "truthy v = (case v of None \<Rightarrow> False | Some s \<Rightarrow> s \<noteq> [])"

subsection \<open>Lookup and logging\<close>

definition getPlayerBySocketId :: "room \<Rightarrow> string \<Rightarrow> player option" where
  "getPlayerBySocketId r s = find (\<lambda>p. socketId p = s) (players r)"

definition getPlayerById :: "room \<Rightarrow> string \<Rightarrow> player option" where
  "getPlayerById r i = find (\<lambda>p. pid p = i) (players r)"

definition addLogToRoom :: "string \<Rightarrow> string option \<Rightarrow> room \<Rightarrow> room" where
  "addLogToRoom ty ch r = r\<lparr>gameLog := gameLog r @ [\<lparr>ltype = ty, character = ch\<rparr>]\<rparr>"

subsection \<open>View projection\<close>

record view_influence =
  v_card :: "string option"
  v_revealed :: bool

record player_view =
  pv_id :: string
  pv_name :: string
  pv_coins :: int
  pv_influenceCount :: nat
  pv_disconnected :: bool
  pv_hasLeft :: bool
  pv_influences :: "view_influence list"
  pv_alive :: bool
  pv_mustRevealInfluence :: bool
  pv_influencesToLose :: int
  pv_mustChooseExchange :: bool
  pv_mustChooseExamine :: bool
  pv_mustShowCardToExaminer :: bool
  pv_examineTargetId :: "string option"
  pv_examinedCard :: "string option"
  pv_exchangeCards :: "string list option"
  pv_isMe :: bool

record game_view =
  gv_roomCode :: string
  gv_state :: room_state
  gv_useInquisitor :: bool
  gv_deckSize :: nat
  gv_isSpectator :: bool
  gv_players :: "player_view list"
  gv_currentPlayerIndex :: nat
  gv_currentPlayerId :: "string option"
  gv_actionInProgress :: "action_in_progress option"
  gv_myPlayerId :: "string option"

text \<open>An influence object sent as it is, and the object \<^verbatim>\<open>{ revealed: false }\<close>.\<close>

definition faceUp :: "influence \<Rightarrow> view_influence" where
  "faceUp c = \<lparr>v_card = Some (card c), v_revealed = revealed c\<rparr>"

definition faceDown :: view_influence where
  "faceDown = \<lparr>v_card = None, v_revealed = False\<rparr>"

definition playerView :: "room \<Rightarrow> string \<Rightarrow> bool \<Rightarrow> player \<Rightarrow> player_view" where
  "playerView r sock isSpectator p =
     \<lparr>pv_id = pid p,
      pv_name = (if anonymousMode r \<and> state r = Playing \<and> truthy (anonymousName p)
                 then the (anonymousName p) else name p),
      pv_coins = coins p,
      pv_influenceCount = length (influences p),
      pv_disconnected = disconnected p,
      pv_hasLeft = hasLeft p,
      pv_influences =
        (if (socketId p = sock \<and> \<not> isSpectator) \<or> isSpectator
         then map faceUp (influences p)
         else map (\<lambda>c. if revealed c then faceUp c else faceDown) (influences p)),
      pv_alive = alive p,
      pv_mustRevealInfluence = mustRevealInfluence p,
      pv_influencesToLose = influencesToLose p,
      pv_mustChooseExchange = mustChooseExchange p,
      pv_mustChooseExamine = mustChooseExamine p,
      pv_mustShowCardToExaminer = mustShowCardToExaminer p,
      pv_examineTargetId = (if truthy (examineTargetId p) then examineTargetId p else None),
      pv_examinedCard =
        (if socketId p = sock \<and> \<not> isSpectator \<and> truthy (examinedCard p)
         then examinedCard p else None),
      pv_exchangeCards = (if socketId p = sock \<and> \<not> isSpectator then exchangeCards p else None),
      pv_isMe = (socketId p = sock \<and> \<not> isSpectator)\<rparr>"

text \<open>
  The snapshot for one observer.  The room options, the spectator list and the filtered
  log of the source's snapshot hold no card and are not part of the model.
\<close>

definition getPublicGameState :: "room \<Rightarrow> string \<Rightarrow> bool \<Rightarrow> game_view" where
  "getPublicGameState r sock isSpectator =
     \<lparr>gv_roomCode = code r,
      gv_state = state r,
      gv_useInquisitor = useInquisitor r,
      gv_deckSize = length (deck r),
      gv_isSpectator = isSpectator,
      gv_players = map (playerView r sock isSpectator) (players r),
      gv_currentPlayerIndex = currentPlayerIndex r,
      gv_currentPlayerId =
        (if currentPlayerIndex r < length (players r)
         then Some (pid (players r ! currentPlayerIndex r)) else None),
      gv_actionInProgress = map_option (\<lambda>a. a\<lparr>responseTimeout := None\<rparr>) (actionInProgress r),
      gv_myPlayerId = map_option pid (getPlayerBySocketId r sock)\<rparr>"

text \<open>
  The room with every card role blanked out that belongs to somebody else than the observer:
  the roles in the deck, the roles of the unrevealed cards of the other players, and the
  cards the other players hold aside (the card shown to an examiner and its index, the offer
  of an exchange).  The record of the observer is left as it is.
\<close>

definition maskSecrets :: "string \<Rightarrow> room \<Rightarrow> room" where
  "maskSecrets sock r =
     r\<lparr>deck := map (\<lambda>c. []) (deck r),
       players := map (\<lambda>p. if socketId p = sock then p
                            else p\<lparr>influences := map (\<lambda>c. if revealed c then c else c\<lparr>card := []\<rparr>)
                                                     (influences p),
                                  examinedCard := None, examinedCardIndex := None,
                                  exchangeCards := None\<rparr>)
                     (players r)\<rparr>"


section \<open>The action-resolution engine\<close>

subsection \<open>The action catalogue\<close>

text \<open>
  The entries of \<^verbatim>\<open>ACTIONS\<close> (their \<^verbatim>\<open>name\<close> and \<^verbatim>\<open>coins\<close> fields are read nowhere).
  \<^verbatim>\<open>ACTIONS[action]\<close> is a property lookup on an object literal, so the names inherited
  from \<^verbatim>\<open>Object.prototype\<close> also give a value that is not \<^verbatim>\<open>undefined\<close>: an object on
  which every field of an entry is \<^verbatim>\<open>undefined\<close>.
\<close>

record action_data =
  cost :: "int option"
  blockable :: bool
  adBlocker :: "string list option"
  challengeable :: bool
  adCard :: "string option"

definition actionKeys :: "string list" where
  "actionKeys = [''income'', ''foreignAid'', ''tax'', ''assassinate'', ''steal'', ''exchange'',
                 ''examine'', ''coup'']"

definition inheritedKeys :: "string list" where
  "inheritedKeys = [''constructor'', ''hasOwnProperty'', ''isPrototypeOf'',
                    ''propertyIsEnumerable'', ''toLocaleString'', ''toString'', ''valueOf'',
                    ''__defineGetter__'', ''__defineSetter__'', ''__lookupGetter__'',
                    ''__lookupSetter__'', ''__proto__'']"

definition ACTIONS :: "string \<Rightarrow> action_data option" where
  "ACTIONS a =
     (if a = ''income'' then
        Some \<lparr>cost = None, blockable = False, adBlocker = None, challengeable = False, adCard = None\<rparr>
      else if a = ''foreignAid'' then
        Some \<lparr>cost = None, blockable = True, adBlocker = Some [''Duke''], challengeable = False,
              adCard = None\<rparr>
      else if a = ''tax'' then
        Some \<lparr>cost = None, blockable = False, adBlocker = None, challengeable = True,
              adCard = Some ''Duke''\<rparr>
      else if a = ''assassinate'' then
        Some \<lparr>cost = Some 3, blockable = True, adBlocker = Some [''Contessa''], challengeable = True,
              adCard = Some ''Assassin''\<rparr>
      else if a = ''steal'' then
        Some \<lparr>cost = None, blockable = True,
              adBlocker = Some [''Captain'', ''Ambassador'', ''Inquisitor''], challengeable = True,
              adCard = Some ''Captain''\<rparr>
      else if a = ''exchange'' then
        Some \<lparr>cost = None, blockable = False, adBlocker = None, challengeable = True,
              adCard = Some ''Ambassador''\<rparr>
      else if a = ''examine'' then
        Some \<lparr>cost = None, blockable = False, adBlocker = None, challengeable = True,
              adCard = Some ''Inquisitor''\<rparr>
      else if a = ''coup'' then
        Some \<lparr>cost = Some 7, blockable = False, adBlocker = None, challengeable = False, adCard = None\<rparr>
      else if a \<in> set inheritedKeys then
        Some \<lparr>cost = None, blockable = False, adBlocker = None, challengeable = False, adCard = None\<rparr>
      else None)"

subsection \<open>Timers and object updates\<close>

definition setTimeout :: "callback \<Rightarrow> room \<Rightarrow> nat \<times> room" where
  "setTimeout cb r =
     (timerSeq r, r\<lparr>timers := timers r @ [(timerSeq r, cb)], timerSeq := Suc (timerSeq r)\<rparr>)"

definition clearTimeout :: "nat \<Rightarrow> room \<Rightarrow> room" where
  "clearTimeout h r = r\<lparr>timers := filter (\<lambda>t. fst t \<noteq> h) (timers r)\<rparr>"

fun updateFirst :: "('a \<Rightarrow> bool) \<Rightarrow> ('a \<Rightarrow> 'a) \<Rightarrow> 'a list \<Rightarrow> 'a list" where
  "updateFirst P f [] = []"
| "updateFirst P f (x # xs) = (if P x then f x # xs else x # updateFirst P f xs)"

text \<open>A write to fields of the object that \<^verbatim>\<open>getPlayerById(room, i)\<close> returns.\<close>

definition updatePlayer :: "string \<Rightarrow> (player \<Rightarrow> player) \<Rightarrow> room \<Rightarrow> room" where
  "updatePlayer i f r = r\<lparr>players := updateFirst (\<lambda>p. pid p = i) f (players r)\<rparr>"

text \<open>A write to fields of the pending action object, when there is one.\<close>

definition updateAction :: "(action_in_progress \<Rightarrow> action_in_progress) \<Rightarrow> room \<Rightarrow> room" where
  "updateAction f r = r\<lparr>actionInProgress := map_option f (actionInProgress r)\<rparr>"

text \<open>\<^verbatim>\<open>p.influences.some(inf => !inf.revealed && inf.card === c)\<close>, where \<open>c\<close> may be undefined.\<close>

definition holdsCard :: "player \<Rightarrow> string option \<Rightarrow> bool" where
  "holdsCard p c = list_ex (\<lambda>i. \<not> revealed i \<and> Some (card i) = c) (influences p)"

definition clearActionAndTimeout :: "room \<Rightarrow> room" where
  "clearActionAndTimeout r =
     (let r1 = (case roomResponseTimeout r of
                  Some h \<Rightarrow> (clearTimeout h r)\<lparr>roomResponseTimeout := None\<rparr>
                | None \<Rightarrow> r);
          r2 = (case actionInProgress r1 of
                  Some a \<Rightarrow> (case responseTimeout a of Some h \<Rightarrow> clearTimeout h r1 | None \<Rightarrow> r1)
                | None \<Rightarrow> r1)
      in r2\<lparr>actionInProgress := None\<rparr>)"

subsection \<open>Influence loss and turn advance\<close>

definition loseInfluence :: "room \<Rightarrow> string \<Rightarrow> int \<Rightarrow> string option \<Rightarrow> room" where
  "loseInfluence r playerId' count causedByPlayerId =
     (case getPlayerById r playerId' of
        None \<Rightarrow> r
      | Some pl \<Rightarrow>
          if filter (\<lambda>i. \<not> revealed i) (influences pl) \<noteq> [] then
            updatePlayer playerId'
              (\<lambda>p. p\<lparr>influencesToLose := influencesToLose p + count,
                      mustRevealInfluence := True,
                      influenceLossCausedBy := causedByPlayerId\<rparr>) r
          else r)"

text \<open>
  The loop of \<^verbatim>\<open>nextTurn\<close>: \<^verbatim>\<open>while (!room.players[next].alive && attempts < room.players.length)\<close>.
  The index is a remainder modulo the number of players, so it names a seat.
\<close>

function nextAlive :: "player list \<Rightarrow> nat \<Rightarrow> nat \<Rightarrow> nat" where
  "nextAlive ps nxt attempts =
     (if nxt < length ps \<and> \<not> alive (ps ! nxt) \<and> attempts < length ps
      then nextAlive ps ((nxt + 1) mod length ps) (attempts + 1)
      else nxt)"
  by pat_completeness auto
termination
  by (relation "measure (\<lambda>(ps, nxt, attempts). length ps - attempts)") auto

declare nextAlive.simps [simp del]

text \<open>
  With no player, \<^verbatim>\<open>(room.currentPlayerIndex + 1) % 0\<close> is \<^verbatim>\<open>NaN\<close> and
  \<^verbatim>\<open>room.players[NaN].alive\<close> throws.
\<close>

definition nextTurn :: "room \<Rightarrow> js_error + room" where
  "nextTurn r =
     (if list_ex mustChooseExchange (players r) then Inr r
      else if list_ex mustRevealInfluence (players r) then Inr r
      else if list_ex mustShowCardToExaminer (players r) then Inr r
      else if players r = [] then Inl TypeError
      else Inr (addLogToRoom ''info'' None
                  (r\<lparr>currentPlayerIndex :=
                       nextAlive (players r) ((currentPlayerIndex r + 1) mod length (players r)) 0\<rparr>)))"

subsection \<open>Effect application\<close>

text \<open>The end of \<^verbatim>\<open>resolveAction\<close>: \<^verbatim>\<open>clearActionAndTimeout(room); nextTurn(room);\<close>.\<close>

definition finishAction :: "room \<Rightarrow> js_error + room" where
  "finishAction r = nextTurn (clearActionAndTimeout r)"

text \<open>
  \<^verbatim>\<open>resolveAction\<close>.  When the actor is not in the room, every action of the catalogue reads
  a field of \<^verbatim>\<open>actor\<close> (the claimed card, the cost or the coins) and throws; an inherited
  name reads none.
\<close>

definition resolveAction :: "room \<Rightarrow> js_error + room" where
  "resolveAction r =
     (case actionInProgress r of
        None \<Rightarrow> Inr r
      | Some a \<Rightarrow>
         (case ACTIONS (action a) of
            None \<Rightarrow> Inl TypeError
          | Some actionData \<Rightarrow>
             (case getPlayerById r (playerId a) of
                None \<Rightarrow> if action a \<in> set actionKeys then Inl TypeError else finishAction r
              | Some actor \<Rightarrow>
                 (let target = (if truthy (targetId a) then getPlayerById r (the (targetId a))
                                else None);
                      r1 = (case cost actionData of
                              Some c \<Rightarrow> updatePlayer (pid actor) (\<lambda>p. p\<lparr>coins := coins p - c\<rparr>) r
                            | None \<Rightarrow> r)
                  in if action a = ''income'' then
                       finishAction (addLogToRoom ''success'' (Some ''Income'')
                         (updatePlayer (pid actor) (\<lambda>p. p\<lparr>coins := coins p + 1\<rparr>) r1))
                     else if action a = ''foreignAid'' then
                       finishAction (addLogToRoom ''success'' (Some ''ForeignAid'')
                         (updatePlayer (pid actor) (\<lambda>p. p\<lparr>coins := coins p + 2\<rparr>) r1))
                     else if action a = ''tax'' then
                       finishAction (addLogToRoom ''success'' (Some ''Duke'')
                         (updatePlayer (pid actor) (\<lambda>p. p\<lparr>coins := coins p + 3\<rparr>) r1))
                     else if action a = ''steal'' then
                       (case target of
                          None \<Rightarrow> finishAction r1
                        | Some tg \<Rightarrow>
                           (let stolen = min 2 (coins tg)
                            in finishAction (addLogToRoom ''success'' (Some ''Captain'')
                                 (updatePlayer (pid actor) (\<lambda>p. p\<lparr>coins := coins p + stolen\<rparr>)
                                   (updatePlayer (pid tg) (\<lambda>p. p\<lparr>coins := coins p - stolen\<rparr>) r1)))))
                     else if action a = ''assassinate'' then
                       (case target of
                          None \<Rightarrow> finishAction r1
                        | Some tg \<Rightarrow>
                            finishAction (loseInfluence (addLogToRoom ''info'' None r1)
                                            (pid tg) 1 (Some (playerId a))))
                     else if action a = ''exchange'' then
                       (if useInquisitor r1 then
                          (if length (deck r1) \<ge> 1 then
                             Inr ((addLogToRoom ''info'' (Some ''Inquisitor'')
                                    (updatePlayer (pid actor)
                                       (\<lambda>p. p\<lparr>exchangeCards := Some [last (deck r1)],
                                               mustChooseExchange := True\<rparr>)
                                       (r1\<lparr>deck := butlast (deck r1)\<rparr>)))
                                  \<lparr>actionInProgress := None\<rparr>)
                           else finishAction (addLogToRoom ''info'' None r1))
                        else
                          (if length (deck r1) \<ge> 2 then
                             Inr ((addLogToRoom ''info'' (Some ''Ambassador'')
                                    (updatePlayer (pid actor)
                                       (\<lambda>p. p\<lparr>exchangeCards :=
                                                 Some [last (deck r1), last (butlast (deck r1))],
                                               mustChooseExchange := True\<rparr>)
                                       (r1\<lparr>deck := butlast (butlast (deck r1))\<rparr>)))
                                  \<lparr>actionInProgress := None\<rparr>)
                           else finishAction (addLogToRoom ''info'' None r1)))
                     else if action a = ''examine'' then
                       (case target of
                          None \<Rightarrow> finishAction r1
                        | Some tg \<Rightarrow>
                            if filter (\<lambda>i. \<not> revealed i) (influences tg) \<noteq> [] then
                              Inr ((addLogToRoom ''info'' (Some ''Inquisitor'')
                                     (updatePlayer (pid tg)
                                        (\<lambda>p. p\<lparr>mustShowCardToExaminer := True,
                                                examinedBy := Some (pid actor)\<rparr>)
                                        (updatePlayer (pid actor)
                                           (\<lambda>p. p\<lparr>examineTargetId := Some (pid tg),
                                                   mustChooseExamine := True\<rparr>) r1)))
                                   \<lparr>actionInProgress := None\<rparr>)
                            else finishAction (addLogToRoom ''info'' None r1))
                     else if action a = ''coup'' then
                       (case target of
                          None \<Rightarrow> finishAction r1
                        | Some tg \<Rightarrow>
                            finishAction (loseInfluence (addLogToRoom ''info'' (Some ''Coup'') r1)
                                            (pid tg) 1 (Some (pid actor))))
                     else finishAction r1))))"

subsection \<open>Challenges and blocks\<close>

fun findIndex :: "('a \<Rightarrow> bool) \<Rightarrow> 'a list \<Rightarrow> nat option" where
  "findIndex P [] = None"
| "findIndex P (x # xs) = (if P x then Some 0 else map_option Suc (findIndex P xs))"

text \<open>
  The return-and-redraw step after a failed challenge, written twice in the source (in
  \<^verbatim>\<open>handleChallenge\<close> and in \<^verbatim>\<open>challengeBlock\<close>): the first unrevealed card with the claimed
  role takes the role popped from the deck, the claimed role goes to the front of the deck,
  and the deck is shuffled.  No card has an undefined role, so with an undefined claim the
  index is \<open>-1\<close>.
\<close>

definition returnAndRedraw :: "(string list \<Rightarrow> string list) \<Rightarrow> string \<Rightarrow> string option \<Rightarrow> room \<Rightarrow> room" where
  "returnAndRedraw sh i claimed r =
     (case (getPlayerById r i, claimed) of
        (Some p, Some c) \<Rightarrow>
          (case findIndex (\<lambda>x. \<not> revealed x \<and> card x = c) (influences p) of
             Some k \<Rightarrow>
               if length (deck r) > 0 then
                 addLogToRoom ''info'' None
                   ((updatePlayer i
                       (\<lambda>q. q\<lparr>influences := (influences q)[k := (influences q ! k)\<lparr>card := last (deck r)\<rparr>]\<rparr>) r)
                    \<lparr>deck := sh (c # butlast (deck r))\<rparr>)
               else r
           | None \<Rightarrow> r)
      | _ \<Rightarrow> r)"

text \<open>The cancellation of the timer of the pending action: \<^verbatim>\<open>if (action.responseTimeout) { ... }\<close>.\<close>

definition clearActionTimer :: "room \<Rightarrow> room" where
  "clearActionTimer r =
     (case actionInProgress r of
        Some a \<Rightarrow> (case responseTimeout a of
                     Some h \<Rightarrow> updateAction (\<lambda>b. b\<lparr>responseTimeout := None\<rparr>) (clearTimeout h r)
                   | None \<Rightarrow> r)
      | None \<Rightarrow> r)"

text \<open>The log entry of \<^verbatim>\<open>handleChallenge\<close> for an action that survived its challenge.\<close>

definition logDefendedAction :: "string \<Rightarrow> room \<Rightarrow> room" where
  "logDefendedAction act r =
     (if act = ''tax'' then addLogToRoom ''success'' (Some ''Duke'') r
      else if act = ''steal'' then addLogToRoom ''success'' (Some ''Captain'') r
      else if act = ''assassinate'' then addLogToRoom ''success'' (Some ''Assassin'') r
      else if act = ''exchange'' then
        addLogToRoom ''success'' (Some (if useInquisitor r then ''Inquisitor'' else ''Ambassador'')) r
      else if act = ''examine'' then addLogToRoom ''success'' (Some ''Inquisitor'') r
      else r)"

definition handleChallenge :: "(string list \<Rightarrow> string list) \<Rightarrow> room \<Rightarrow> string \<Rightarrow> js_error + room" where
  "handleChallenge sh r challengerId =
     (case actionInProgress r of
        None \<Rightarrow> Inl TypeError
      | Some a \<Rightarrow>
         (case (getPlayerById r challengerId, getPlayerById r (playerId a), ACTIONS (action a)) of
            (Some challenger, Some actor, Some actionData) \<Rightarrow>
              (let r1 = addLogToRoom ''challenge'' None (clearActionTimer r)
               in if holdsCard actor (adCard actionData) then
                    (let r2 = addLogToRoom ''info'' None (addLogToRoom ''fail'' (adCard actionData) r1);
                         r3 = loseInfluence r2 challengerId 1 (Some (playerId a));
                         r4 = returnAndRedraw sh (playerId a) (adCard actionData) r3;
                         r5 = logDefendedAction (action a) r4
                     in resolveAction r5)
                  else
                    (let r2 = addLogToRoom ''info'' None (addLogToRoom ''success'' (adCard actionData) r1);
                         r3 = loseInfluence r2 (playerId a) 1 (Some challengerId)
                     in nextTurn (clearActionAndTimeout r3)))
          | _ \<Rightarrow> Inl TypeError))"

text \<open>The players who may answer a claim of player \<open>i\<close>: alive, not \<open>i\<close>, connected.\<close>

definition eligibleResponders :: "room \<Rightarrow> string \<Rightarrow> player list" where
  "eligibleResponders r i = filter (\<lambda>p. alive p \<and> pid p \<noteq> i \<and> \<not> disconnected p) (players r)"

definition hasDisconnectedChallengers :: "room \<Rightarrow> string option \<Rightarrow> bool" where
  "hasDisconnectedChallengers r b =
     list_ex (\<lambda>p. alive p \<and> Some (pid p) \<noteq> b \<and> disconnected p) (players r)"

definition handleBlock :: "room \<Rightarrow> string \<Rightarrow> string option \<Rightarrow> js_error + room" where
  "handleBlock r blockerId' blockCard' =
     (case (actionInProgress r, getPlayerById r blockerId') of
        (Some a, Some blockerP) \<Rightarrow>
          (let r1 = addLogToRoom ''block'' blockCard' r;
               r2 = updateAction (\<lambda>b. b\<lparr>phase := Block, blockerId := Some blockerId',
                                        blockCard := blockCard'\<rparr>) r1;
               eligibleChallengersList = eligibleResponders r2 blockerId';
               r3 = updateAction (\<lambda>b. b\<lparr>totalResponders := int (length eligibleChallengersList),
                                        respondedCount := 0\<rparr>)
                      (r2\<lparr>pendingResponses := remdups (map pid eligibleChallengersList)\<rparr>)
           in if eligibleChallengersList = [] then
                nextTurn (clearActionAndTimeout (addLogToRoom ''success'' blockCard' r3))
              else if hasDisconnectedChallengers r3 (Some blockerId') then
                Inr (addLogToRoom ''info'' None
                       (updateAction (\<lambda>b. b\<lparr>pausedForDisconnection := True\<rparr>) r3))
              else
                (let r4 = (case roomResponseTimeout r3 of
                             Some h \<Rightarrow> (clearTimeout h r3)\<lparr>roomResponseTimeout := None\<rparr>
                           | None \<Rightarrow> r3);
                     (timeoutId, r5) = setTimeout BlockWindow r4
                 in Inr ((updateAction (\<lambda>b. b\<lparr>responseTimeout := Some timeoutId\<rparr>) r5)
                         \<lparr>roomResponseTimeout := Some timeoutId\<rparr>)))
      | _ \<Rightarrow> Inl TypeError)"

subsection \<open>Responses\<close>

text \<open>\<^verbatim>\<open>room.actionInProgress.responses[player.id]\<close> as a condition; \<^verbatim>\<open>responses\<close> starts as \<^verbatim>\<open>{}\<close>.\<close>

definition hasResponded :: "action_in_progress \<Rightarrow> string \<Rightarrow> bool" where
  "hasResponded a i = (map_of (responses a) i \<noteq> None \<or> i \<in> set inheritedKeys)"

definition respondToAction ::
  "(string list \<Rightarrow> string list) \<Rightarrow> room \<Rightarrow> string \<Rightarrow> response \<Rightarrow> js_error + (result \<times> room)" where
  "respondToAction sh r sock resp =
     (case (getPlayerBySocketId r sock, actionInProgress r) of
        (Some pl, Some a) \<Rightarrow>
          if pid pl \<notin> set (pendingResponses r) then Inr (failure ''Not eligible to respond'', r)
          else if hasResponded a (pid pl) then Inr (failure ''Already responded'', r)
          else if phase a = Waiting \<and> playerId a = pid pl then
            Inr (failure ''Cannot respond to your own action'', r)
          else if phase a = Block \<and> blockerId a = Some (pid pl) then
            Inr (failure ''Cannot respond to your own block'', r)
          else if rtype resp = ''block'' \<and> blockableByTarget a \<and> Some (pid pl) \<noteq> targetCanBlock a then
            Inr (failure ''Only the target can block this action'', r)
          else
            (let r1 = updateAction (\<lambda>b. b\<lparr>responses := (pid pl, resp) # responses b\<rparr>) r;
                 r2 = r1\<lparr>pendingResponses := removeAll (pid pl) (pendingResponses r1)\<rparr>;
                 r3 = updateAction
                        (\<lambda>b. b\<lparr>respondedCount := totalResponders b - int (length (pendingResponses r2))\<rparr>) r2
             in if rtype resp = ''challenge'' then
                  (case handleChallenge sh r3 (pid pl) of
                     Inl e \<Rightarrow> Inl e | Inr r' \<Rightarrow> Inr (ok, r'))
                else if rtype resp = ''block'' then
                  (case handleBlock r3 (pid pl) (rblockCard resp) of
                     Inl e \<Rightarrow> Inl e | Inr r' \<Rightarrow> Inr (ok, r'))
                else if rtype resp = ''pass'' then
                  (if phase a = Block then
                     (if pendingResponses r3 = [] then
                        (if \<not> hasDisconnectedChallengers r3 (blockerId a) then
                           (case nextTurn (clearActionAndTimeout
                                             (addLogToRoom ''success'' (blockCard a) r3)) of
                              Inl e \<Rightarrow> Inl e | Inr r' \<Rightarrow> Inr (ok, r'))
                         else if \<not> pausedForDisconnection a then
                           Inr (ok, clearActionTimer
                                      (addLogToRoom ''info'' None
                                         (updateAction (\<lambda>b. b\<lparr>pausedForDisconnection := True\<rparr>) r3)))
                         else Inr (ok, r3))
                      else Inr (ok, r3))
                   else if pendingResponses r3 = [] then
                     (let targetPlayer = (if truthy (targetId a) then getPlayerById r3 (the (targetId a))
                                          else None)
                      in if \<not> (case targetPlayer of Some t \<Rightarrow> disconnected t | None \<Rightarrow> False) then
                           (case resolveAction (if action a = ''foreignAid''
                                                then addLogToRoom ''info'' None r3 else r3) of
                              Inl e \<Rightarrow> Inl e | Inr r' \<Rightarrow> Inr (ok, r'))
                         else if \<not> pausedForDisconnection a then
                           Inr (ok, clearActionTimer
                                      (addLogToRoom ''info'' None
                                         (updateAction (\<lambda>b. b\<lparr>pausedForDisconnection := True\<rparr>) r3)))
                         else Inr (ok, r3))
                   else Inr (ok, r3))
                else Inr (ok, r3))
      | _ \<Rightarrow> Inr (failure ''Invalid response'', r))"

text \<open>The log entry of \<^verbatim>\<open>challengeBlock\<close> for an action whose block was overturned.\<close>

definition logActionProceeds :: "string \<Rightarrow> room \<Rightarrow> room" where
  "logActionProceeds act r =
     (if act = ''foreignAid'' then addLogToRoom ''success'' (Some ''ForeignAid'') r
      else if act = ''assassinate'' then addLogToRoom ''success'' (Some ''Assassin'') r
      else if act = ''steal'' then addLogToRoom ''success'' (Some ''Captain'') r
      else r)"

text \<open>
  \<^verbatim>\<open>challengeBlock\<close> reads \<^verbatim>\<open>action.blockerId\<close> before any check, and \<^verbatim>\<open>challenger.id\<close>
  after the first check only.
\<close>

definition challengeBlock ::
  "(string list \<Rightarrow> string list) \<Rightarrow> room \<Rightarrow> string \<Rightarrow> js_error + (result \<times> room)" where
  "challengeBlock sh r sock =
     (case actionInProgress r of
        None \<Rightarrow> Inl TypeError
      | Some a \<Rightarrow>
         (case (case blockerId a of Some b \<Rightarrow> getPlayerById r b | None \<Rightarrow> None) of
            None \<Rightarrow> Inr (failure ''Invalid block challenge'', r)
          | Some blockerP \<Rightarrow>
             if \<not> truthy (blockCard a) then Inr (failure ''Invalid block challenge'', r)
             else
              (case getPlayerBySocketId r sock of
                 None \<Rightarrow> Inl TypeError
               | Some challenger \<Rightarrow>
                  if Some (pid challenger) = blockerId a then
                    Inr (failure ''Cannot challenge your own block'', r)
                  else
                   (let r1 = addLogToRoom ''challenge'' None (clearActionTimer r)
                    in if holdsCard blockerP (blockCard a) then
                         (let r2 = addLogToRoom ''info'' None (addLogToRoom ''fail'' (blockCard a) r1);
                              r3 = loseInfluence r2 (pid challenger) 1 (blockerId a);
                              r4 = returnAndRedraw sh (pid blockerP) (blockCard a) r3;
                              r5 = addLogToRoom ''success'' (blockCard a) r4
                          in case nextTurn (clearActionAndTimeout r5) of
                               Inl e \<Rightarrow> Inl e | Inr r' \<Rightarrow> Inr (ok, r'))
                       else
                         (let r2 = addLogToRoom ''info'' None (addLogToRoom ''success'' (blockCard a) r1);
                              r3 = loseInfluence r2 (pid blockerP) 1 (Some (pid challenger));
                              r4 = logActionProceeds (action a) r3
                          in case resolveAction r4 of
                               Inl e \<Rightarrow> Inl e | Inr r' \<Rightarrow> Inr (ok, r'))))))"

subsection \<open>Declaring an action\<close>

text \<open>
  The part of \<^verbatim>\<open>performAction\<close> after the checks, in three steps: the timer of an earlier
  action is cleared and the action record is created (\<open>startAction\<close>), the declaration is
  logged (\<open>logDeclaration\<close>), and either the response window is opened or the action is
  resolved (\<open>declareAction\<close>).
\<close>

definition startAction ::
  "room \<Rightarrow> player \<Rightarrow> string \<Rightarrow> string option \<Rightarrow> action_data \<Rightarrow> player option \<Rightarrow> room" where
  "startAction r pl act targetId' actionData targetPlayer =
     (let blockers = (if blockable actionData \<and> useInquisitor r
                      then map_option (filter (\<lambda>c. c \<noteq> ''Ambassador'')) (adBlocker actionData)
                      else adBlocker actionData);
          r1 = (case roomResponseTimeout r of
                  Some h \<Rightarrow> (clearTimeout h r)\<lparr>roomResponseTimeout := None\<rparr>
                | None \<Rightarrow> r)
      in r1\<lparr>actionInProgress := Some
             \<lparr>action = act, playerId = pid pl, playerName = name pl, targetId = targetId',
              targetName = map_option name targetPlayer,
              canChallenge = challengeable actionData, canBlock = blockable actionData,
              blocker = blockers, responses = [], phase = Waiting, totalResponders = 0,
              respondedCount = 0, blockableByTarget = False, targetCanBlock = None,
              pausedForDisconnection = False, responseTimeout = None, blockerId = None,
              blockCard = None\<rparr>\<rparr>)"

definition logDeclaration :: "string \<Rightarrow> room \<Rightarrow> room" where
  "logDeclaration act r =
     (if act = ''foreignAid'' then addLogToRoom ''action'' (Some ''ForeignAid'') r
      else if act = ''tax'' then addLogToRoom ''action'' (Some ''Duke'') r
      else if act = ''assassinate'' then addLogToRoom ''action'' (Some ''Assassin'') r
      else if act = ''steal'' then addLogToRoom ''action'' (Some ''Captain'') r
      else if act = ''exchange'' then
        addLogToRoom ''action'' (Some (if useInquisitor r then ''Inquisitor'' else ''Ambassador'')) r
      else if act = ''examine'' then addLogToRoom ''action'' (Some ''Inquisitor'') r
      else r)"

definition declareAction ::
  "room \<Rightarrow> player \<Rightarrow> string \<Rightarrow> string option \<Rightarrow> action_data \<Rightarrow> player option
     \<Rightarrow> js_error + (result \<times> room)" where
  "declareAction r pl act targetId' actionData targetPlayer =
     (let r3 = logDeclaration act (startAction r pl act targetId' actionData targetPlayer)
      in if challengeable actionData \<or> blockable actionData then
           (let eligible = eligibleResponders r3 (pid pl);
                r4 = (if blockable actionData \<and> truthy targetId'
                      then updateAction (\<lambda>b. b\<lparr>blockableByTarget := True, targetCanBlock := targetId'\<rparr>) r3
                      else r3);
                r5 = updateAction (\<lambda>b. b\<lparr>totalResponders := int (length eligible), respondedCount := 0\<rparr>)
                       (r4\<lparr>pendingResponses := remdups (map pid eligible)\<rparr>)
            in if eligible = [] then
                 (case resolveAction r5 of Inl e \<Rightarrow> Inl e | Inr r' \<Rightarrow> Inr (ok, r'))
               else if (case targetPlayer of Some t \<Rightarrow> disconnected t | None \<Rightarrow> False) then
                 Inr (ok, addLogToRoom ''info'' None
                            (updateAction (\<lambda>b. b\<lparr>pausedForDisconnection := True\<rparr>) r5))
               else
                 (let (timeoutId, r6) = setTimeout ResponseWindow r5
                  in Inr (ok, (updateAction (\<lambda>b. b\<lparr>responseTimeout := Some timeoutId\<rparr>) r6)
                              \<lparr>roomResponseTimeout := Some timeoutId\<rparr>)))
         else
           (case resolveAction r3 of Inl e \<Rightarrow> Inl e | Inr r' \<Rightarrow> Inr (ok, r')))"

text \<open>
  \<^verbatim>\<open>performAction\<close>.  \<^verbatim>\<open>room.players[room.currentPlayerIndex].socketId\<close> throws when the turn
  index names no seat.
\<close>

definition performAction ::
  "room \<Rightarrow> string \<Rightarrow> string \<Rightarrow> string option \<Rightarrow> js_error + (result \<times> room)" where
  "performAction r sock act targetId' =
     (case getPlayerBySocketId r sock of
        None \<Rightarrow> Inr (failure ''Player not found'', r)
      | Some pl \<Rightarrow>
          if \<not> currentPlayerIndex r < length (players r) then Inl TypeError
          else if socketId (players r ! currentPlayerIndex r) \<noteq> sock then
            Inr (failure ''Not your turn'', r)
          else if actionInProgress r \<noteq> None then
            Inr (failure ''Action already in progress'', r)
          else if list_ex mustRevealInfluence (players r) then
            Inr (failure ''Waiting for player to reveal influence'', r)
          else if list_ex mustChooseExchange (players r) then
            Inr (failure ''Waiting for exchange to complete'', r)
          else if list_ex mustShowCardToExaminer (players r) then
            Inr (failure ''Waiting for card to be shown'', r)
          else if list_ex mustChooseExamine (players r) then
            Inr (failure ''Waiting for examination to complete'', r)
          else
            (case ACTIONS act of
               None \<Rightarrow> Inr (failure ''Invalid action'', r)
             | Some actionData \<Rightarrow>
                 if (case cost actionData of Some c \<Rightarrow> coins pl < c | None \<Rightarrow> False) then
                   Inr (failure ''Not enough coins'', r)
                 else if coins pl \<ge> 10 \<and> act \<noteq> ''coup'' then
                   Inr (failure ''Must coup with 10+ coins'', r)
                 else
                   (let targetPlayer = (if truthy targetId' then getPlayerById r (the targetId')
                                        else None)
                    in if (act = ''steal'' \<or> act = ''assassinate'' \<or> act = ''coup'' \<or> act = ''examine'')
                          \<and> targetPlayer = None then
                         Inr (failure ''Target required'', r)
                       else declareAction r pl act targetId' actionData targetPlayer)))"

subsection \<open>Completing an exchange\<close>

fun decimalDigits :: "nat \<Rightarrow> nat \<Rightarrow> string" where
  "decimalDigits 0 n = []"
| "decimalDigits (Suc k) n =
     (if n < 10 then [char_of (48 + n)]
      else decimalDigits k (n div 10) @ [char_of (48 + n mod 10)])"

text \<open>The decimal digits of a number, as a template literal prints it.\<close>

definition decimal :: "nat \<Rightarrow> string" where
  "decimal n = decimalDigits (Suc n) n"

text \<open>
  \<^verbatim>\<open>completeExchange\<close>, for an array of integers \<open>keepIndices\<close>.  The first statement after
  the first check reads \<^verbatim>\<open>player.exchangeCards.length\<close>.
\<close>

definition completeExchange ::
  "(string list \<Rightarrow> string list) \<Rightarrow> room \<Rightarrow> string \<Rightarrow> int list \<Rightarrow> js_error + (result \<times> room)" where
  "completeExchange sh r playerId' keepIndices =
     (case getPlayerById r playerId' of
        None \<Rightarrow> Inr (failure ''Not in exchange mode'', r)
      | Some pl \<Rightarrow>
          if \<not> mustChooseExchange pl then Inr (failure ''Not in exchange mode'', r)
          else
           (case exchangeCards pl of
              None \<Rightarrow> Inl TypeError
            | Some drawn \<Rightarrow>
               (let cardsToKeep = length (influences pl)
                in if length keepIndices \<noteq> cardsToKeep then
                     Inr (failure (''Must choose exactly '' @ decimal cardsToKeep @ '' cards to keep''), r)
                   else
                    (let allCards = influences pl @ map (\<lambda>c. \<lparr>card = c, revealed = False\<rparr>) drawn
                     in if list_ex (\<lambda>idx. idx < 0 \<or> idx \<ge> int (length allCards)) keepIndices then
                          Inr (failure ''Invalid card indices'', r)
                        else
                         (let keptCards = map (\<lambda>idx. allCards ! nat idx) keepIndices;
                              returnedCards =
                                map (\<lambda>idx. card (allCards ! idx))
                                  (filter (\<lambda>idx. int idx \<notin> set keepIndices) [0 ..< length allCards]);
                              r1 = r\<lparr>deck := sh (deck r @ returnedCards)\<rparr>;
                              r2 = updatePlayer playerId'
                                     (\<lambda>p. p\<lparr>influences := keptCards, exchangeCards := None,
                                             mustChooseExchange := False\<rparr>) r1;
                              r3 = addLogToRoom ''success''
                                     (Some (if useInquisitor r2 then ''Inquisitor'' else ''Ambassador'')) r2
                          in case nextTurn r3 of
                               Inl e \<Rightarrow> Inl e | Inr r' \<Rightarrow> Inr (ok, r'))))))"

subsection \<open>Showing a card to the examiner\<close>

text \<open>
  \<^verbatim>\<open>showCardToExaminer\<close>.  The card is stored on the examiner when there is one; the log
  entry reads \<^verbatim>\<open>examiner.name\<close> and throws when there is none.
\<close>

definition showCardToExaminer :: "room \<Rightarrow> string \<Rightarrow> int \<Rightarrow> js_error + (result \<times> room)" where
  "showCardToExaminer r playerId' cardIndex =
     (case getPlayerById r playerId' of
        None \<Rightarrow> Inr (failure ''Not required to show card'', r)
      | Some pl \<Rightarrow>
          if \<not> mustShowCardToExaminer pl then Inr (failure ''Not required to show card'', r)
          else if cardIndex < 0 \<or> cardIndex \<ge> int (length (influences pl)) then
            Inr (failure ''Invalid card index'', r)
          else
            (let shownCard = influences pl ! nat cardIndex
             in if revealed shownCard then Inr (failure ''Cannot show revealed card'', r)
                else
                  (case (case examinedBy pl of Some e \<Rightarrow> getPlayerById r e | None \<Rightarrow> None) of
                     None \<Rightarrow> Inl TypeError
                   | Some examiner \<Rightarrow>
                       Inr (ok, addLogToRoom ''info'' (Some ''Inquisitor'')
                                  (updatePlayer playerId'
                                     (\<lambda>p. p\<lparr>mustShowCardToExaminer := False, examinedBy := None\<rparr>)
                                     (updatePlayer (pid examiner)
                                        (\<lambda>p. p\<lparr>examinedCard := Some (card shownCard),
                                                examinedCardIndex := Some cardIndex\<rparr>) r))))))"

subsection \<open>Timer callbacks\<close>

text \<open>
  The callbacks that \<^verbatim>\<open>performAction\<close> and \<^verbatim>\<open>handleBlock\<close> pass to \<^verbatim>\<open>setTimeout\<close>: what
  happens when a response window of 12 seconds ends with the action still in that phase.
  The callbacks do not read the table of timers; the entry of the timer that fired stays in
  it until its handle is cleared.
\<close>

definition responseWindowElapsed :: "room \<Rightarrow> js_error + room" where
  "responseWindowElapsed r =
     (case actionInProgress r of
        Some a \<Rightarrow>
          if phase a = Waiting then
            resolveAction (if action a = ''foreignAid'' then addLogToRoom ''info'' None r else r)
          else Inr r
      | None \<Rightarrow> Inr r)"

definition blockWindowElapsed :: "room \<Rightarrow> js_error + room" where
  "blockWindowElapsed r =
     (case actionInProgress r of
        Some a \<Rightarrow>
          if phase a = Block then
            nextTurn (clearActionAndTimeout (addLogToRoom ''success'' (blockCard a) r))
          else Inr r
      | None \<Rightarrow> Inr r)"

subsection \<open>Disconnection, reconnection and forfeit\<close>






text \<open>
  The callback of the timer that \<^verbatim>\<open>attemptReconnect\<close> starts for a resumed block, with the
  card of the block it captured.  (A resumed action in the phase \<^verbatim>\<open>waiting\<close> gets the
  callback \<open>responseWindowElapsed\<close>.)
\<close>

definition resumedBlockWindowElapsed :: "room \<Rightarrow> string option \<Rightarrow> js_error + room" where
  "resumedBlockWindowElapsed r capturedBlockCard =
     (case actionInProgress r of
        Some a \<Rightarrow>
          if phase a = Block then
            nextTurn ((addLogToRoom ''success'' capturedBlockCard r)\<lparr>actionInProgress := None\<rparr>)
          else Inr r
      | None \<Rightarrow> Inr r)"

section \<open>Notions used in the statements\<close>

text \<open>The identity and the socket of every seat, and the coin balance of every seat.\<close>

definition seats :: "room \<Rightarrow> (string \<times> string) list" where
  "seats r = map (\<lambda>p. (pid p, socketId p)) (players r)"

definition balances :: "room \<Rightarrow> int list" where
  "balances r = map coins (players r)"

text \<open>
  The number of cards in the room: the deck, the influence cards of every player (revealed
  or not) and the cards a player holds in a pending exchange offer.
\<close>

definition cardCount :: "room \<Rightarrow> nat" where
  "cardCount r =
     length (deck r)
     + sum_list (map (\<lambda>p. length (influences p)
                          + (case exchangeCards p of Some d \<Rightarrow> length d | None \<Rightarrow> 0))
                     (players r))"

text \<open>An operation is rejected: it returns a failure result and the room it was given.\<close>

definition rejected :: "js_error + (result \<times> room) \<Rightarrow> room \<Rightarrow> bool" where
  "rejected x r = (\<exists>e. x = Inr (failure e, r))"

text \<open>The result and the room an operation returns (the given room when it throws).\<close>

definition resultOf :: "js_error + (result \<times> room) \<Rightarrow> result option" where
  "resultOf x = (case x of Inr (res, r') \<Rightarrow> Some res | Inl e \<Rightarrow> None)"

definition roomAfter :: "room \<Rightarrow> js_error + (result \<times> room) \<Rightarrow> room" where
  "roomAfter r x = (case x of Inr (res, r') \<Rightarrow> r' | Inl e \<Rightarrow> r)"

text \<open>
  The operations that act on a pending action, as one step function: the three socket
  events and the two timer callbacks (a callback returns nothing; its step has the result
  \<open>ok\<close>).
\<close>

datatype operation =
    Declare string string "string option"
  | Respond string response
  | ChallengeBlock string
  | ResponseWindowElapsed
  | BlockWindowElapsed

fun run :: "(string list \<Rightarrow> string list) \<Rightarrow> room \<Rightarrow> operation \<Rightarrow> js_error + (result \<times> room)" where
  "run sh r (Declare sock act targetId') = performAction r sock act targetId'"
| "run sh r (Respond sock resp) = respondToAction sh r sock resp"
| "run sh r (ChallengeBlock sock) = challengeBlock sh r sock"
| "run sh r ResponseWindowElapsed =
     (case responseWindowElapsed r of Inl e \<Rightarrow> Inl e | Inr r' \<Rightarrow> Inr (ok, r'))"
| "run sh r BlockWindowElapsed =
     (case blockWindowElapsed r of Inl e \<Rightarrow> Inl e | Inr r' \<Rightarrow> Inr (ok, r'))"

text \<open>
  A step cancels the pending action without effect: a challenge of an initiator who
  does not hold the claimed card, a pass on a block, a block that nobody is there to
  challenge, the end of the window of a block, or a challenge of a block whose blocker holds
  the claimed card.
\<close>

fun cancels :: "room \<Rightarrow> operation \<Rightarrow> bool" where
  "cancels r (Respond sock resp) =
     (case actionInProgress r of
        None \<Rightarrow> False
      | Some a \<Rightarrow>
          (rtype resp = ''challenge''
             \<and> (case (getPlayerById r (playerId a), ACTIONS (action a)) of
                   (Some actor, Some ad) \<Rightarrow> \<not> holdsCard actor (adCard ad)
                 | _ \<Rightarrow> False))
          \<or> (rtype resp = ''pass'' \<and> phase a = Block)
          \<or> (rtype resp = ''block''
                \<and> (case getPlayerBySocketId r sock of
                      Some pl \<Rightarrow> eligibleResponders r (pid pl) = []
                    | None \<Rightarrow> False)))"
| "cancels r (ChallengeBlock sock) =
     (case actionInProgress r of
        None \<Rightarrow> False
      | Some a \<Rightarrow>
          (case (case blockerId a of Some b \<Rightarrow> getPlayerById r b | None \<Rightarrow> None) of
             Some blockerP \<Rightarrow> holdsCard blockerP (blockCard a)
           | None \<Rightarrow> False))"
| "cancels r BlockWindowElapsed =
     (case actionInProgress r of None \<Rightarrow> False | Some a \<Rightarrow> phase a = Block)"
| "cancels r (Declare sock act targetId') = False"
| "cancels r ResponseWindowElapsed = False"

text \<open>The balances after a step are those before it, or they come out of \<^verbatim>\<open>resolveAction\<close>.\<close>

definition viaResolve :: "room \<Rightarrow> room \<Rightarrow> bool" where
  "viaResolve r r' = (balances r' = balances r \<or> (\<exists>r0. balances r0 = balances r \<and> resolveAction r0 = Inr r'))"


text \<open>For every seat, whether the player is disconnected and whether the player has left.\<close>

definition connection :: "room \<Rightarrow> (bool \<times> bool) list" where
  "connection r = map (\<lambda>p. (disconnected p, hasLeft p)) (players r)"

text \<open>The room a callback leaves (the given room when it throws).\<close>

definition roomAfterCallback :: "room \<Rightarrow> js_error + room \<Rightarrow> room" where
  "roomAfterCallback r x = (case x of Inr r' \<Rightarrow> r' | Inl e \<Rightarrow> r)"

section \<open>Example rooms\<close>

text \<open>
  A player object as the server creates it when a player joins (\<^verbatim>\<open>coins: 2\<close>,
  \<^verbatim>\<open>influences: []\<close>, \<^verbatim>\<open>alive: true\<close>, \<^verbatim>\<open>disconnected: false\<close>), with the given
  identifier, socket and hand, and a room as \<^verbatim>\<open>createRoom\<close> and \<^verbatim>\<open>startGame\<close> leave it.
\<close>

definition mkPlayer :: "string \<Rightarrow> string \<Rightarrow> influence list \<Rightarrow> player" where
  "mkPlayer i s hand =
     \<lparr>pid = i, persistentId = i, socketId = s, name = i, anonymousName = None, coins = 2, influences = hand,
      alive = True, disconnected = False, hasLeft = False, mustRevealInfluence = False,
      influencesToLose = 0, influenceLossCausedBy = None, mustChooseExchange = False,
      exchangeCards = None, mustChooseExamine = False, mustShowCardToExaminer = False,
      examineTargetId = None, examinedBy = None, examinedCard = None,
      examinedCardIndex = None\<rparr>"

definition hidden :: "string \<Rightarrow> influence" where
  "hidden c = \<lparr>card = c, revealed = False\<rparr>"

definition shown :: "string \<Rightarrow> influence" where
  "shown c = \<lparr>card = c, revealed = True\<rparr>"

definition mkRoom :: "player list \<Rightarrow> string list \<Rightarrow> room" where
  "mkRoom ps d =
     \<lparr>code = ''ROOM01'', players = ps, state = Playing, deck = d, currentPlayerIndex = 0,
      actionInProgress = None, gameLog = [], pendingResponses = [], useInquisitor = False,
      anonymousMode = False, roomResponseTimeout = None, winnerId = None, timers = [],
      timerSeq = 0, disconnectionTimers = []\<rparr>"

text \<open>Two players: the first holds a Duke and a Captain, the second a revealed Contessa and an Assassin.\<close>

definition roomAB :: room where
  "roomAB = mkRoom [mkPlayer ''A'' ''sA'' [hidden ''Duke'', hidden ''Captain''],
                    mkPlayer ''B'' ''sB'' [shown ''Contessa'', hidden ''Assassin'']]
                   [''Duke'', ''Duke'', ''Assassin'', ''Assassin'', ''Captain'', ''Captain'',
                    ''Contessa'', ''Contessa'', ''Ambassador'', ''Ambassador'', ''Ambassador'']"

text \<open>The same two players right after the deal, and three players right after the deal.\<close>

definition roomDealt :: room where
  "roomDealt = mkRoom [mkPlayer ''A'' ''sA'' [hidden ''Duke'', hidden ''Captain''],
                       mkPlayer ''B'' ''sB'' [hidden ''Contessa'', hidden ''Assassin'']]
                      [''Duke'', ''Duke'', ''Assassin'', ''Assassin'', ''Captain'', ''Captain'',
                       ''Contessa'', ''Contessa'', ''Ambassador'', ''Ambassador'', ''Ambassador'']"

definition roomABC :: room where
  "roomABC = mkRoom [mkPlayer ''A'' ''sA'' [hidden ''Duke'', hidden ''Captain''],
                     mkPlayer ''B'' ''sB'' [hidden ''Contessa'', hidden ''Assassin''],
                     mkPlayer ''C'' ''sC'' [hidden ''Duke'', hidden ''Ambassador'']]
                    [''Duke'', ''Assassin'', ''Assassin'', ''Captain'', ''Captain'',
                     ''Contessa'', ''Contessa'', ''Ambassador'', ''Ambassador'']"

definition pass :: response where
  "pass = \<lparr>rtype = ''pass'', rblockCard = None\<rparr>"

definition challenge :: response where
  "challenge = \<lparr>rtype = ''challenge'', rblockCard = None\<rparr>"

definition block :: "string \<Rightarrow> response" where
  "block c = \<lparr>rtype = ''block'', rblockCard = Some c\<rparr>"

text \<open>The shuffle that leaves the deck in the order it has.\<close>

definition keepOrder :: "string list \<Rightarrow> string list" where
  "keepOrder d = d"

text \<open>Player A of the three declares Tax; then player B passes, player C has not answered.\<close>

definition roomTax :: room where
  "roomTax = roomAfter roomABC (performAction roomABC ''sA'' ''tax'' None)"

definition roomTaxPassed :: room where
  "roomTaxPassed = roomAfter roomTax (respondToAction keepOrder roomTax ''sB'' pass)"

text \<open>
  Player A of the two declares Exchange and player B passes: A holds an exchange offer.
  The same with player B of \<open>roomAB\<close>, who has a revealed Contessa, in turn.
\<close>

definition roomExchangeDeclared :: room where
  "roomExchangeDeclared = roomAfter roomDealt (performAction roomDealt ''sA'' ''exchange'' None)"

definition roomExchangeOffer :: room where
  "roomExchangeOffer =
     roomAfter roomExchangeDeclared (respondToAction keepOrder roomExchangeDeclared ''sB'' pass)"

definition roomRevealedDeclared :: room where
  "roomRevealedDeclared =
     roomAfter roomAB (performAction (roomAB\<lparr>currentPlayerIndex := 1\<rparr>) ''sB'' ''exchange'' None)"

definition roomRevealedOffer :: room where
  "roomRevealedOffer =
     roomAfter roomRevealedDeclared (respondToAction keepOrder roomRevealedDeclared ''sA'' pass)"

text \<open>
  Three players in the Inquisitor variant; A has examined B, B has shown a card, and A has
  not yet decided: the only obligation left is \<^verbatim>\<open>mustChooseExamine\<close> of A.
\<close>

definition roomExamining :: room where
  "roomExamining =
     (mkRoom [(mkPlayer ''A'' ''sA'' [hidden ''Inquisitor'', hidden ''Captain''])
                \<lparr>mustChooseExamine := True, examineTargetId := Some ''B'',
                 examinedCard := Some ''Contessa''\<rparr>,
              mkPlayer ''B'' ''sB'' [hidden ''Contessa'', hidden ''Assassin''],
              mkPlayer ''C'' ''sC'' [hidden ''Duke'', shown ''Inquisitor'']]
             [''Duke'', ''Duke'', ''Assassin'', ''Assassin'', ''Captain'', ''Captain'',
              ''Contessa'', ''Contessa'', ''Inquisitor''])
     \<lparr>useInquisitor := True\<rparr>"

text \<open>Player A with ten coins, in turn.\<close>

definition roomRich :: room where
  "roomRich = roomDealt\<lparr>players := [(mkPlayer ''A'' ''sA'' [hidden ''Duke'', hidden ''Captain''])\<lparr>coins := 10\<rparr>,
                                    mkPlayer ''B'' ''sB'' [hidden ''Contessa'', hidden ''Assassin'']]\<rparr>"

text \<open>
  Player A with three coins and no Assassin declares an assassination of B; B challenges it;
  or nobody answers and the action is resolved.
\<close>

definition roomPoor :: room where
  "roomPoor = roomDealt\<lparr>players := [(mkPlayer ''A'' ''sA'' [hidden ''Duke'', hidden ''Captain''])\<lparr>coins := 3\<rparr>,
                                    mkPlayer ''B'' ''sB'' [hidden ''Contessa'', hidden ''Assassin'']]\<rparr>"

definition roomAssassinDeclared :: room where
  "roomAssassinDeclared =
     roomAfter roomPoor (performAction roomPoor ''sA'' ''assassinate'' (Some ''B''))"

definition roomBluffCaught :: room where
  "roomBluffCaught =
     roomAfter roomAssassinDeclared (respondToAction keepOrder roomAssassinDeclared ''sB'' challenge)"

definition roomAssassinated :: room where
  "roomAssassinated = roomAfterCallback roomAssassinDeclared (resolveAction roomAssassinDeclared)"

text \<open>Player A takes Foreign Aid, player B blocks as Duke, player A passes on the block.\<close>

definition roomAidDeclared :: room where
  "roomAidDeclared = roomAfter roomDealt (performAction roomDealt ''sA'' ''foreignAid'' None)"

definition roomAidBlocked :: room where
  "roomAidBlocked =
     roomAfter roomAidDeclared (respondToAction keepOrder roomAidDeclared ''sB'' (block ''Duke''))"

definition roomBlockStands :: room where
  "roomBlockStands =
     roomAfter roomAidBlocked (respondToAction keepOrder roomAidBlocked ''sA'' pass)"









text \<open>
  Two players in the Inquisitor variant: A examines B, B passes, and B shows the first card.
  A third player C looks on in \<open>roomShownABC\<close>.
\<close>

definition roomInquisitor :: room where
  "roomInquisitor =
     (mkRoom [mkPlayer ''A'' ''sA'' [hidden ''Inquisitor'', hidden ''Captain''],
              mkPlayer ''B'' ''sB'' [hidden ''Contessa'', hidden ''Assassin'']]
             [''Duke'', ''Duke'', ''Duke'', ''Assassin'', ''Assassin'', ''Captain'', ''Captain'',
              ''Contessa'', ''Contessa'', ''Inquisitor'', ''Inquisitor''])
     \<lparr>useInquisitor := True\<rparr>"

definition roomExamineDeclared :: room where
  "roomExamineDeclared =
     roomAfter roomInquisitor (performAction roomInquisitor ''sA'' ''examine'' (Some ''B''))"

definition roomExamineOpen :: room where
  "roomExamineOpen =
     roomAfter roomExamineDeclared (respondToAction keepOrder roomExamineDeclared ''sB'' pass)"

definition roomCardShown :: room where
  "roomCardShown = roomAfter roomExamineOpen (showCardToExaminer roomExamineOpen ''B'' 0)"

text \<open>
  Three players: A takes Foreign Aid, B passes, C blocks as Duke; the block opens a new
  pending set with A and B in it.
\<close>

definition roomAid3 :: room where
  "roomAid3 = roomAfter roomABC (performAction roomABC ''sA'' ''foreignAid'' None)"

definition roomAid3Passed :: room where
  "roomAid3Passed = roomAfter roomAid3 (respondToAction keepOrder roomAid3 ''sB'' pass)"

definition roomAid3Blocked :: room where
  "roomAid3Blocked =
     roomAfter roomAid3Passed (respondToAction keepOrder roomAid3Passed ''sC'' (block ''Duke''))"

section \<open>View projection: hidden information\<close>

lemma playerView_maskSecrets:
  "playerView (maskSecrets sock r) sock False
     (if socketId p = sock then p
      else p\<lparr>influences := map (\<lambda>c. if revealed c then c else c\<lparr>card := []\<rparr>) (influences p),
             examinedCard := None, examinedCardIndex := None, exchangeCards := None\<rparr>)
   = playerView r sock False p"
  by (auto simp add: playerView_def maskSecrets_def faceUp_def faceDown_def)

lemma find_socket_maskSecrets:
  "map_option pid (find (\<lambda>p. socketId p = s)
      (map (\<lambda>p. if socketId p = sock then p
                 else p\<lparr>influences := map (\<lambda>c. if revealed c then c else c\<lparr>card := []\<rparr>) (influences p),
                        examinedCard := None, examinedCardIndex := None, exchangeCards := None\<rparr>) ps))
   = map_option pid (find (\<lambda>p. socketId p = s) ps)"
  by (induction ps) auto

lemma getPublicGameState_maskSecrets:
  "getPublicGameState (maskSecrets sock r) sock False = getPublicGameState r sock False"
proof -
  have ps: "map (playerView (maskSecrets sock r) sock False) (players (maskSecrets sock r))
            = map (playerView r sock False) (players r)"
    using playerView_maskSecrets [of sock r]
    by (simp add: maskSecrets_def comp_def)
  have me: "map_option pid (getPlayerBySocketId (maskSecrets sock r) sock)
            = map_option pid (getPlayerBySocketId r sock)"
    using find_socket_maskSecrets [of sock sock "players r"]
    by (simp add: getPlayerBySocketId_def maskSecrets_def)
  have cur: "currentPlayerIndex r < length (players r) \<Longrightarrow>
             pid (players (maskSecrets sock r) ! currentPlayerIndex r)
             = pid (players r ! currentPlayerIndex r)"
    by (simp add: maskSecrets_def)
  show ?thesis
    unfolding getPublicGameState_def using ps me cur
    by (simp add: maskSecrets_def)
qed

text \<open>
  The claim C1 has the role of an unrevealed card in no snapshot but those of its owner and
  of the spectators.  In the Inquisitor variant player A examines player B, B passes and
  shows the first card, an unrevealed Contessa: \<^verbatim>\<open>showCardToExaminer\<close> copies the role into
  \<^verbatim>\<open>examinedCard\<close> of A, and the snapshot for A, who is a player and not the owner, has it in
  the entry of A, while the card is face-down in the entry of B.
\<close>

theorem examiner_sees_role_of_unrevealed_card:
  "resultOf (performAction roomInquisitor ''sA'' ''examine'' (Some ''B'')) = Some ok
   \<and> resultOf (respondToAction keepOrder roomExamineDeclared ''sB'' pass) = Some ok
   \<and> resultOf (showCardToExaminer roomExamineOpen ''B'' 0) = Some ok
   \<and> socketId (players roomCardShown ! 1) = ''sB''
   \<and> influences (players roomCardShown ! 1) ! 0 = \<lparr>card = ''Contessa'', revealed = False\<rparr>
   \<and> pv_influences (gv_players (getPublicGameState roomCardShown ''sA'' False) ! 1) ! 0
       = \<lparr>v_card = None, v_revealed = False\<rparr>
   \<and> pv_examinedCard (gv_players (getPublicGameState roomCardShown ''sA'' False) ! 0)
       = Some ''Contessa''"
  by code_simp

text \<open>
  C1, as the code has it.  For an observer who is a player and not a spectator, the snapshot
  is the same when every card role that belongs to somebody else is blanked in the room: the
  roles in the deck, the roles of the unrevealed cards of the other players, and the cards
  the other players hold aside (\<^verbatim>\<open>examinedCard\<close>, \<^verbatim>\<open>exchangeCards\<close>).  So the role of an
  unrevealed card of another player reaches the observer through the observer's own record
  only, and there it is \<^verbatim>\<open>examinedCard\<close>, the card that the target of an Examine has shown.
  Entry by entry, for every observer: \<^verbatim>\<open>examinedCard\<close> and \<^verbatim>\<open>exchangeCards\<close> are null in
  the entry of every other player and in every entry of a spectator's snapshot, and the
  observer's own values in the observer's entry; an unrevealed card of another player is
  sent as \<^verbatim>\<open>{ revealed: false }\<close>, with no role; a revealed card is sent with its role to
  every observer; the owner of a hand and a spectator get every card of it with its role.
\<close>

theorem view_hides_cards_of_others:
  "getPublicGameState (maskSecrets sock r) sock False = getPublicGameState r sock False
   \<and> (\<forall>i < length (players r).
        (let p = players r ! i; e = gv_players (getPublicGameState r sock isSpectator) ! i
         in (isSpectator \<or> socketId p \<noteq> sock
               \<longrightarrow> pv_examinedCard e = None \<and> pv_exchangeCards e = None)
          \<and> (\<not> isSpectator \<and> socketId p = sock
               \<longrightarrow> pv_examinedCard e = (if truthy (examinedCard p) then examinedCard p else None)
                 \<and> pv_exchangeCards e = exchangeCards p)
          \<and> (\<forall>j < length (influences p).
               (let c = influences p ! j; v = pv_influences e ! j
                in (\<not> isSpectator \<and> socketId p \<noteq> sock \<and> \<not> revealed c
                      \<longrightarrow> v = \<lparr>v_card = None, v_revealed = False\<rparr>)
                 \<and> (revealed c \<longrightarrow> v = \<lparr>v_card = Some (card c), v_revealed = True\<rparr>)
                 \<and> (isSpectator \<or> socketId p = sock
                      \<longrightarrow> v = \<lparr>v_card = Some (card c), v_revealed = revealed c\<rparr>)))))"
proof -
  have entries: "\<forall>i < length (players r).
        (let p = players r ! i; e = gv_players (getPublicGameState r sock isSpectator) ! i
         in (isSpectator \<or> socketId p \<noteq> sock
               \<longrightarrow> pv_examinedCard e = None \<and> pv_exchangeCards e = None)
          \<and> (\<not> isSpectator \<and> socketId p = sock
               \<longrightarrow> pv_examinedCard e = (if truthy (examinedCard p) then examinedCard p else None)
                 \<and> pv_exchangeCards e = exchangeCards p)
          \<and> (\<forall>j < length (influences p).
               (let c = influences p ! j; v = pv_influences e ! j
                in (\<not> isSpectator \<and> socketId p \<noteq> sock \<and> \<not> revealed c
                      \<longrightarrow> v = \<lparr>v_card = None, v_revealed = False\<rparr>)
                 \<and> (revealed c \<longrightarrow> v = \<lparr>v_card = Some (card c), v_revealed = True\<rparr>)
                 \<and> (isSpectator \<or> socketId p = sock
                      \<longrightarrow> v = \<lparr>v_card = Some (card c), v_revealed = revealed c\<rparr>))))"
    by (simp add: getPublicGameState_def playerView_def faceUp_def faceDown_def Let_def)
  show ?thesis
    by (rule conjI [OF getPublicGameState_maskSecrets entries])
qed

theorem view_hides_cards_of_others_witness:
  "pv_influences (gv_players (getPublicGameState roomAB ''sA'' False) ! 1) ! 1
     = \<lparr>v_card = None, v_revealed = False\<rparr>
   \<and> pv_influences (gv_players (getPublicGameState roomAB ''sA'' False) ! 1) ! 0
     = \<lparr>v_card = Some ''Contessa'', v_revealed = True\<rparr>
   \<and> pv_influences (gv_players (getPublicGameState roomAB ''sA'' False) ! 0) ! 0
     = \<lparr>v_card = Some ''Duke'', v_revealed = False\<rparr>
   \<and> pv_influences (gv_players (getPublicGameState roomAB ''sC'' True) ! 1) ! 1
     = \<lparr>v_card = Some ''Assassin'', v_revealed = False\<rparr>
   \<and> pv_examinedCard (gv_players (getPublicGameState roomExamining ''sA'' False) ! 0)
     = Some ''Contessa''
   \<and> pv_examinedCard (gv_players (getPublicGameState roomExamining ''sC'' False) ! 0) = None
   \<and> pv_examinedCard (gv_players (getPublicGameState roomExamining ''sX'' True) ! 0) = None
   \<and> pv_exchangeCards (gv_players (getPublicGameState roomExchangeOffer ''sB'' False) ! 0) = None
   \<and> pv_exchangeCards (gv_players (getPublicGameState roomExchangeOffer ''sA'' False) ! 0)
     = Some [''Ambassador'', ''Ambassador'']"
proof -
  have len: "(1::nat) < length (players roomAB)" "(0::nat) < length (players roomAB)"
            "(0::nat) < length (players roomExamining)"
            "(0::nat) < length (players roomExchangeOffer)"
    by code_simp+
  have hands: "(1::nat) < length (influences (players roomAB ! 1))"
              "(0::nat) < length (influences (players roomAB ! 1))"
              "(0::nat) < length (influences (players roomAB ! 0))"
    by code_simp+
  have facts:
    "socketId (players roomAB ! 1) \<noteq> ''sA''" "socketId (players roomAB ! 0) = ''sA''"
    "\<not> revealed (influences (players roomAB ! 1) ! 1)" "revealed (influences (players roomAB ! 1) ! 0)"
    "card (influences (players roomAB ! 1) ! 1) = ''Assassin''"
    "card (influences (players roomAB ! 1) ! 0) = ''Contessa''"
    "card (influences (players roomAB ! 0) ! 0) = ''Duke''"
    "\<not> revealed (influences (players roomAB ! 0) ! 0)"
    "socketId (players roomExamining ! 0) = ''sA''"
    "socketId (players roomExamining ! 0) \<noteq> ''sC''"
    "examinedCard (players roomExamining ! 0) = Some ''Contessa''"
    "truthy (Some ''Contessa'')"
    "socketId (players roomExchangeOffer ! 0) = ''sA''"
    "socketId (players roomExchangeOffer ! 0) \<noteq> ''sB''"
    "exchangeCards (players roomExchangeOffer ! 0) = Some [''Ambassador'', ''Ambassador'']"
    by code_simp+
  note v = view_hides_cards_of_others [THEN conjunct2, rule_format, unfolded Let_def]
  note c = v [THEN conjunct2, THEN conjunct2, rule_format]
  show ?thesis
    using c [where i = 1 and r = roomAB and j = 1 and sock = "''sA''" and isSpectator = False,
             OF len(1) hands(1)]
          c [where i = 1 and r = roomAB and j = 0 and sock = "''sA''" and isSpectator = False,
             OF len(1) hands(2)]
          c [where i = 0 and r = roomAB and j = 0 and sock = "''sA''" and isSpectator = False,
             OF len(2) hands(3)]
          c [where i = 1 and r = roomAB and j = 1 and sock = "''sC''" and isSpectator = True,
             OF len(1) hands(1)]
          v [where i = 0 and r = roomExamining and sock = "''sA''" and isSpectator = False, OF len(3)]
          v [where i = 0 and r = roomExamining and sock = "''sC''" and isSpectator = False, OF len(3)]
          v [where i = 0 and r = roomExamining and sock = "''sX''" and isSpectator = True, OF len(3)]
          v [where i = 0 and r = roomExchangeOffer and sock = "''sB''" and isSpectator = False, OF len(4)]
          v [where i = 0 and r = roomExchangeOffer and sock = "''sA''" and isSpectator = False, OF len(4)]
          facts
    by simp
qed

section \<open>Frame lemmas of the engine\<close>

lemma map_updateFirst:
  "(\<And>x. g (f x) = g x) \<Longrightarrow> map g (updateFirst P f xs) = map g xs"
  by (induction xs) auto

lemma updateFirst_Nil_iff [simp]: "updateFirst P f xs = [] \<longleftrightarrow> xs = []"
  by (cases xs) auto

lemma length_updateFirst [simp]: "length (updateFirst P f xs) = length xs"
  by (induction xs) auto

lemma seats_updatePlayer:
  "(\<And>p. pid (f p) = pid p \<and> socketId (f p) = socketId p) \<Longrightarrow> seats (updatePlayer i f r) = seats r"
  by (simp add: seats_def updatePlayer_def map_updateFirst)

lemma balances_updatePlayer:
  "(\<And>p. coins (f p) = coins p) \<Longrightarrow> balances (updatePlayer i f r) = balances r"
  by (simp add: balances_def updatePlayer_def map_updateFirst)

lemma seats_simps [simp]:
  "seats (addLogToRoom ty ch r) = seats r"
  "seats (clearTimeout h r) = seats r"
  "seats (updateAction g r) = seats r"
  "seats (clearActionAndTimeout r) = seats r"
  "seats (clearActionTimer r) = seats r"
  "seats (loseInfluence r i n c) = seats r"
  "seats (returnAndRedraw sh i cl r) = seats r"
  "seats (logDefendedAction act r) = seats r"
  "seats (logActionProceeds act r) = seats r"
  "seats (logDeclaration act r) = seats r"
  by (auto simp: seats_def addLogToRoom_def clearTimeout_def updateAction_def clearActionAndTimeout_def
      clearActionTimer_def loseInfluence_def returnAndRedraw_def logDefendedAction_def
      logActionProceeds_def logDeclaration_def updatePlayer_def map_updateFirst Let_def
      split: option.splits)

lemma seats_fields [simp]:
  "seats (r\<lparr>deck := d\<rparr>) = seats r"
  "seats (r\<lparr>actionInProgress := a\<rparr>) = seats r"
  "seats (r\<lparr>pendingResponses := ps\<rparr>) = seats r"
  "seats (r\<lparr>currentPlayerIndex := n\<rparr>) = seats r"
  "seats (r\<lparr>roomResponseTimeout := t\<rparr>) = seats r"
  by (simp_all add: seats_def)

lemma nextTurn_seats: "nextTurn r = Inr r' \<Longrightarrow> seats r' = seats r"
  by (auto simp: nextTurn_def split: if_splits)

lemma finishAction_seats: "finishAction r = Inr r' \<Longrightarrow> seats r' = seats r"
  by (auto simp: finishAction_def dest: nextTurn_seats)

lemma resolveAction_seats: "resolveAction r = Inr r' \<Longrightarrow> seats r' = seats r"
  by (auto simp: resolveAction_def Let_def seats_updatePlayer
      split: option.splits if_splits dest!: finishAction_seats)


lemma nextTurn_frame:
  "nextTurn r = Inr r' \<Longrightarrow>
     actionInProgress r' = actionInProgress r \<and> pendingResponses r' = pendingResponses r
     \<and> players r' = players r \<and> deck r' = deck r \<and> timers r' = timers r \<and> seats r' = seats r"
  by (auto simp: nextTurn_def addLogToRoom_def seats_def split: if_splits)

lemma clearActionAndTimeout_frame [simp]:
  "actionInProgress (clearActionAndTimeout r) = None"
  "pendingResponses (clearActionAndTimeout r) = pendingResponses r"
  "players (clearActionAndTimeout r) = players r"
  "deck (clearActionAndTimeout r) = deck r"
  by (auto simp: clearActionAndTimeout_def clearTimeout_def Let_def split: option.splits)

lemma finishAction_clears: "finishAction r = Inr r' \<Longrightarrow> actionInProgress r' = None"
  by (auto simp: finishAction_def dest!: nextTurn_frame)

lemma resolveAction_clears:
  "resolveAction r = Inr r' \<Longrightarrow> actionInProgress r \<noteq> None \<Longrightarrow> actionInProgress r' = None"
  by (auto simp: resolveAction_def Let_def split: option.splits if_splits dest!: finishAction_clears)

lemma pending_simps [simp]:
  "pendingResponses (addLogToRoom ty ch r) = pendingResponses r"
  "pendingResponses (loseInfluence r i n c) = pendingResponses r"
  "pendingResponses (returnAndRedraw sh i cl r) = pendingResponses r"
  "pendingResponses (logDefendedAction act r) = pendingResponses r"
  "pendingResponses (logActionProceeds act r) = pendingResponses r"
  "pendingResponses (logDeclaration act r) = pendingResponses r"
  "pendingResponses (updateAction g r) = pendingResponses r"
  "pendingResponses (updatePlayer i f r) = pendingResponses r"
  "pendingResponses (clearActionTimer r) = pendingResponses r"
  by (auto simp: addLogToRoom_def loseInfluence_def returnAndRedraw_def logDefendedAction_def
      logActionProceeds_def logDeclaration_def updatePlayer_def updateAction_def Let_def
      clearActionTimer_def clearTimeout_def
      split: option.splits)

lemma finishAction_pending: "finishAction r = Inr r' \<Longrightarrow> pendingResponses r' = pendingResponses r"
  by (auto simp: finishAction_def dest!: nextTurn_frame)

lemma resolveAction_pending:
  "resolveAction r = Inr r' \<Longrightarrow> pendingResponses r' = pendingResponses r"
  by (auto simp: resolveAction_def Let_def split: option.splits if_splits dest!: finishAction_pending)

lemma action_simps [simp]:
  "actionInProgress (addLogToRoom ty ch r) = actionInProgress r"
  "actionInProgress (loseInfluence r i n c) = actionInProgress r"
  "actionInProgress (returnAndRedraw sh i cl r) = actionInProgress r"
  "actionInProgress (logDefendedAction act r) = actionInProgress r"
  "actionInProgress (logActionProceeds act r) = actionInProgress r"
  "actionInProgress (logDeclaration act r) = actionInProgress r"
  "actionInProgress (updateAction g r) = map_option g (actionInProgress r)"
  by (auto simp: addLogToRoom_def loseInfluence_def returnAndRedraw_def logDefendedAction_def
      logActionProceeds_def logDeclaration_def updatePlayer_def updateAction_def Let_def
      split: option.splits)

lemma clearActionTimer_action:
  "actionInProgress (clearActionTimer r) = None \<longleftrightarrow> actionInProgress r = None"
  by (auto simp: clearActionTimer_def updateAction_def clearTimeout_def split: option.splits)

lemma resolveAction_post:
  "resolveAction r = Inr r' \<Longrightarrow>
     seats r' = seats r \<and> pendingResponses r' = pendingResponses r
     \<and> (actionInProgress r \<noteq> None \<longrightarrow> actionInProgress r' = None)"
  using resolveAction_seats resolveAction_clears resolveAction_pending by blast

lemma handleChallenge_post:
  "handleChallenge sh r c = Inr r' \<Longrightarrow> seats r' = seats r \<and> actionInProgress r' = None"
  by (auto simp: handleChallenge_def Let_def clearActionTimer_action
      split: option.splits if_splits
      dest!: nextTurn_frame resolveAction_post)

lemma eligible_simps [simp]:
  "eligibleResponders (addLogToRoom ty ch r) i = eligibleResponders r i"
  "eligibleResponders (updateAction g r) i = eligibleResponders r i"
  "eligibleResponders (r\<lparr>pendingResponses := ps\<rparr>) i = eligibleResponders r i"
  by (simp_all add: eligibleResponders_def addLogToRoom_def updateAction_def)

lemma not_in_eligible: "i \<notin> pid ` set (eligibleResponders r i)"
  by (auto simp: eligibleResponders_def)

lemma handleBlock_post:
  "handleBlock r b bc = Inr r' \<Longrightarrow>
     seats r' = seats r \<and> (actionInProgress r' = None \<or> b \<notin> set (pendingResponses r'))"
  by (auto simp: handleBlock_def Let_def setTimeout_def updateAction_def addLogToRoom_def
        clearTimeout_def seats_def eligibleResponders_def
      split: option.splits if_splits prod.splits
      dest!: nextTurn_frame)


lemma find_seats:
  "map (\<lambda>p. (pid p, socketId p)) ps = map (\<lambda>p. (pid p, socketId p)) ps' \<Longrightarrow>
   map_option pid (find (\<lambda>p. socketId p = s) ps) = map_option pid (find (\<lambda>p. socketId p = s) ps')"
  by (induction ps arbitrary: ps') auto

lemma socket_lookup_seats:
  "seats r' = seats r \<Longrightarrow> getPlayerBySocketId r s = Some pl \<Longrightarrow>
   \<exists>pl'. getPlayerBySocketId r' s = Some pl' \<and> pid pl' = pid pl"
  using find_seats [of "players r'" "players r" s]
  by (auto simp: seats_def getPlayerBySocketId_def)

lemma respond_first:
  assumes "respondToAction sh r sock resp = Inr (res, r1)" and "success res"
  shows "\<exists>pl. getPlayerBySocketId r sock = Some pl \<and> seats r1 = seats r
           \<and> (actionInProgress r1 = None \<or> pid pl \<notin> set (pendingResponses r1))"
  using assms
  by (auto simp: respondToAction_def failure_def Let_def clearActionTimer_action
      split: option.splits if_splits sum.splits
      dest!: handleChallenge_post handleBlock_post nextTurn_frame resolveAction_post)

section \<open>The number of cards in a room\<close>

text \<open>
  C2.  The claim is that the deck and the hands (with a pending exchange offer) always hold
  15 cards.  \<^verbatim>\<open>completeExchange\<close> accepts an array that names the same card twice: in a room
  of 15 cards reached from the deal by an Exchange that nobody challenges, the array
  \<^verbatim>\<open>[0, 0]\<close> is accepted, the player keeps two copies of card 0 and the three other cards go
  to the deck, so the room holds 16 cards.
\<close>

theorem completeExchange_duplicate_indices_add_a_card:
  "cardCount roomDealt = 15
   \<and> resultOf (performAction roomDealt ''sA'' ''exchange'' None) = Some ok
   \<and> resultOf (respondToAction keepOrder roomExchangeDeclared ''sB'' pass) = Some ok
   \<and> cardCount roomExchangeOffer = 15
   \<and> resultOf (completeExchange keepOrder roomExchangeOffer ''A'' [0, 0]) = Some ok
   \<and> cardCount (roomAfter roomExchangeOffer
                   (completeExchange keepOrder roomExchangeOffer ''A'' [0, 0])) = 16"
  by code_simp

section \<open>Revealed cards\<close>

text \<open>
  C3.  The claim is that a revealed card is never hidden again and never goes back to the
  deck.  \<^verbatim>\<open>completeExchange\<close> offers the revealed cards of the hand together with the
  unrevealed and the drawn ones: player B, who holds a revealed Contessa and an unrevealed
  Assassin and has drawn two Ambassadors, keeps cards 1 and 2; afterwards B has two
  unrevealed cards, no revealed one, and the revealed Contessa is in the deck.
\<close>

theorem completeExchange_returns_revealed_card:
  "influences (players roomRevealedOffer ! 1) = [shown ''Contessa'', hidden ''Assassin'']
   \<and> exchangeCards (players roomRevealedOffer ! 1) = Some [''Ambassador'', ''Ambassador'']
   \<and> count_list (deck roomRevealedOffer) ''Contessa'' = 2
   \<and> resultOf (completeExchange keepOrder roomRevealedOffer ''B'' [1, 2]) = Some ok
   \<and> influences (players (roomAfter roomRevealedOffer
                      (completeExchange keepOrder roomRevealedOffer ''B'' [1, 2])) ! 1)
       = [hidden ''Assassin'', hidden ''Ambassador'']
   \<and> count_list (deck (roomAfter roomRevealedOffer
                      (completeExchange keepOrder roomRevealedOffer ''B'' [1, 2]))) ''Contessa'' = 3"
  by code_simp

section \<open>Turn advance\<close>

lemma nextTurn_blocked:
  "list_ex mustChooseExchange (players r) \<or> list_ex mustRevealInfluence (players r)
     \<or> list_ex mustShowCardToExaminer (players r) \<Longrightarrow> nextTurn r = Inr r"
  by (auto simp: nextTurn_def)

text \<open>
  C5.  The claim is that \<^verbatim>\<open>nextTurn\<close> leaves the turn index alone while any player has one
  of the four obligations.  It tests three of them (\<open>nextTurn_blocked\<close>) and not
  \<^verbatim>\<open>mustChooseExamine\<close>, which \<^verbatim>\<open>performAction\<close> does test: with that obligation alone
  outstanding the turn passes from seat 0 to seat 1.
\<close>

theorem nextTurn_ignores_mustChooseExamine:
  "list_ex mustChooseExamine (players roomExamining)
   \<and> currentPlayerIndex roomExamining = 0
   \<and> map_sum id currentPlayerIndex (nextTurn roomExamining) = Inr 1"
  by code_simp

section \<open>Results of the operations\<close>

text \<open>
  C10.  The claim is that every operation returns a result object, also \<^verbatim>\<open>challengeBlock\<close>
  on a room with no pending action.  \<^verbatim>\<open>challengeBlock\<close> reads \<^verbatim>\<open>action.blockerId\<close> of the
  null action before any check and throws (\<^verbatim>\<open>respondToAction\<close> tests
  \<^verbatim>\<open>!room.actionInProgress\<close> first).
\<close>

theorem challengeBlock_without_action_throws:
  "actionInProgress roomDealt = None
   \<and> challengeBlock keepOrder roomDealt ''sB'' = Inl TypeError"
  by code_simp

section \<open>One action at a time\<close>

lemma find_socket_current:
  "i < length ps \<Longrightarrow> find (\<lambda>p. socketId p = socketId (ps ! i)) ps \<noteq> None"
proof -
  assume "i < length ps"
  then have "ps ! i \<in> set ps" by simp
  then have "\<exists>x. x \<in> set ps \<and> socketId x = socketId (ps ! i)" by (rule_tac x = "ps ! i" in exI) simp
  then show ?thesis by (simp add: find_None_iff)
qed

lemma performAction_not_found:
  "getPlayerBySocketId r sock = None \<Longrightarrow>
   performAction r sock act tid = Inr (failure ''Player not found'', r)"
  unfolding performAction_def by (simp only: option.case)

lemma performAction_not_your_turn:
  "getPlayerBySocketId r sock = Some pl \<Longrightarrow> currentPlayerIndex r < length (players r) \<Longrightarrow>
   socketId (players r ! currentPlayerIndex r) \<noteq> sock \<Longrightarrow>
   performAction r sock act tid = Inr (failure ''Not your turn'', r)"
  unfolding performAction_def by (simp only: option.case simp_thms if_True if_False)

lemma performAction_already_in_progress:
  "getPlayerBySocketId r sock = Some pl \<Longrightarrow> currentPlayerIndex r < length (players r) \<Longrightarrow>
   socketId (players r ! currentPlayerIndex r) = sock \<Longrightarrow> actionInProgress r \<noteq> None \<Longrightarrow>
   performAction r sock act tid = Inr (failure ''Action already in progress'', r)"
  unfolding performAction_def by (simp only: option.case simp_thms if_True if_False)

text \<open>
  The claim C4 names one error for every call of \<^verbatim>\<open>performAction\<close> while an action is
  pending.  A player whose turn it is not gets the error of the turn check, which comes
  first.
\<close>

theorem performAction_not_your_turn_while_pending:
  "actionInProgress roomTax \<noteq> None
   \<and> performAction roomTax ''sB'' ''income'' None = Inr (failure ''Not your turn'', roomTax)
   \<and> resultOf (performAction roomTax ''sB'' ''income'' None)
       \<noteq> Some (failure ''Action already in progress'')"
  by code_simp

text \<open>
  C4, as the code has it.  While an action is pending (and the turn index names a seat),
  \<^verbatim>\<open>performAction\<close> returns a failure and the room unchanged, for every caller, action and
  target: "Action already in progress" for the player whose turn it is, "Player not found"
  or "Not your turn" for the others.  The room has one \<^verbatim>\<open>actionInProgress\<close> field, so
  there is never a second pending action.
\<close>

theorem performAction_while_action_pending:
  assumes "actionInProgress r \<noteq> None" and "currentPlayerIndex r < length (players r)"
  shows "\<exists>e. performAction r sock act tid = Inr (failure e, r)
           \<and> (e = ''Player not found'' \<or> e = ''Not your turn'' \<or> e = ''Action already in progress'')
           \<and> (socketId (players r ! currentPlayerIndex r) = sock \<longrightarrow> e = ''Action already in progress'')"
proof (cases "getPlayerBySocketId r sock")
  case None
  then have ns: "socketId (players r ! currentPlayerIndex r) \<noteq> sock"
    using find_socket_current [OF assms(2)] by (auto simp: getPlayerBySocketId_def)
  show ?thesis
    by (rule exI [of _ "''Player not found''"]) (simp only: performAction_not_found [OF None] ns simp_thms)
next
  case (Some pl)
  show ?thesis
  proof (cases "socketId (players r ! currentPlayerIndex r) = sock")
    case True
    show ?thesis
      by (rule exI [of _ "''Action already in progress''"])
         (simp only: performAction_already_in_progress [OF Some assms(2) True assms(1)] simp_thms)
  next
    case False
    show ?thesis
      by (rule exI [of _ "''Not your turn''"])
         (simp only: performAction_not_your_turn [OF Some assms(2) False] False simp_thms)
  qed
qed

theorem performAction_while_action_pending_witness:
  "performAction roomTax ''sA'' ''income'' None = Inr (failure ''Action already in progress'', roomTax)"
proof -
  have h1: "actionInProgress roomTax \<noteq> None" by code_simp
  have h2: "currentPlayerIndex roomTax < length (players roomTax)" by code_simp
  have h3: "socketId (players roomTax ! currentPlayerIndex roomTax) = ''sA''" by code_simp
  from performAction_while_action_pending [OF h1 h2, of "''sA''" "''income''" None]
  obtain e where "performAction roomTax ''sA'' ''income'' None = Inr (failure e, roomTax)"
    and "socketId (players roomTax ! currentPlayerIndex roomTax) = ''sA'' \<longrightarrow> e = ''Action already in progress''"
    by blast
  with h3 show ?thesis by simp
qed

section \<open>The mandatory coup\<close>

lemma rejected_failure [simp]: "rejected (Inr (failure e, r)) r"
  by (auto simp: rejected_def)

lemma rejected_if:
  "(c \<Longrightarrow> rejected x r) \<Longrightarrow> (\<not> c \<Longrightarrow> rejected y r) \<Longrightarrow> rejected (if c then x else y) r"
  by simp

lemma declareAction_ok: "declareAction r pl act t ad tp = Inr (res, r') \<Longrightarrow> res = ok"
  unfolding declareAction_def Let_def
  by (simp split: sum.splits if_splits prod.splits)

lemma performAction_coup_error:
  "performAction r sock ''coup'' tid = Inr (res, r') \<Longrightarrow> error res \<noteq> Some ''Must coup with 10+ coins''"
  unfolding performAction_def Let_def
  by (simp split: option.splits if_splits add: failure_def)
     (auto dest!: declareAction_ok simp: ok_def)

lemma ACTIONS_cost: "ACTIONS act = Some ad \<Longrightarrow> cost ad = None \<or> cost ad = Some 3 \<or> cost ad = Some 7"
  by (auto simp: ACTIONS_def split: if_splits)

lemma affordable_at_ten:
  "ACTIONS act = Some ad \<Longrightarrow> 10 \<le> coins pl \<Longrightarrow>
   \<not> (case cost ad of Some c \<Rightarrow> coins pl < c | None \<Rightarrow> False)"
  using ACTIONS_cost [of act ad] by auto

lemma performAction_must_coup:
  assumes "getPlayerBySocketId r sock = Some pl" and "10 \<le> coins pl"
      and "currentPlayerIndex r < length (players r)" and "act \<noteq> ''coup''"
  shows "rejected (performAction r sock act tid) r"
proof -
  have tail: "rejected (case ACTIONS act of
               None \<Rightarrow> Inr (failure ''Invalid action'', r)
             | Some actionData \<Rightarrow>
                 if (case cost actionData of Some c \<Rightarrow> coins pl < c | None \<Rightarrow> False) then
                   Inr (failure ''Not enough coins'', r)
                 else if coins pl \<ge> 10 \<and> act \<noteq> ''coup'' then
                   Inr (failure ''Must coup with 10+ coins'', r)
                 else X actionData) r" for X
    using assms(2,4) by (cases "ACTIONS act") simp_all
  show ?thesis
    unfolding performAction_def using assms(1,3)
    by (simp only: option.case not_True_eq_False not_not if_True if_False)
       (intro rejected_if rejected_failure tail)
qed

lemma performAction_must_coup_error:
  assumes "getPlayerBySocketId r sock = Some pl" and "10 \<le> coins pl"
      and "currentPlayerIndex r < length (players r)" and "act \<noteq> ''coup''"
      and "socketId (players r ! currentPlayerIndex r) = sock" and "actionInProgress r = None"
      and "\<not> list_ex mustRevealInfluence (players r)" and "\<not> list_ex mustChooseExchange (players r)"
      and "\<not> list_ex mustShowCardToExaminer (players r)" and "\<not> list_ex mustChooseExamine (players r)"
      and "ACTIONS act = Some ad"
  shows "performAction r sock act tid = Inr (failure ''Must coup with 10+ coins'', r)"
  unfolding performAction_def using assms affordable_at_ten [OF assms(11,2)]
  by (simp only: option.case simp_thms if_True if_False)

text \<open>
  C9.  A player with ten coins or more who declares an action other than a coup is rejected
  and the room is unchanged; when it is the player's turn, nothing is pending and the action
  exists, the error is the one of the mandatory-coup rule.  A coup of that player is never
  rejected with that error.
\<close>

theorem mandatory_coup:
  assumes "getPlayerBySocketId r sock = Some pl" and "10 \<le> coins pl"
      and "currentPlayerIndex r < length (players r)"
  shows "(act \<noteq> ''coup'' \<longrightarrow> (\<exists>e. performAction r sock act tid = Inr (failure e, r)))
       \<and> (act \<noteq> ''coup'' \<and> socketId (players r ! currentPlayerIndex r) = sock
            \<and> actionInProgress r = None
            \<and> \<not> list_ex mustRevealInfluence (players r) \<and> \<not> list_ex mustChooseExchange (players r)
            \<and> \<not> list_ex mustShowCardToExaminer (players r) \<and> \<not> list_ex mustChooseExamine (players r)
            \<and> ACTIONS act \<noteq> None
            \<longrightarrow> performAction r sock act tid = Inr (failure ''Must coup with 10+ coins'', r))
       \<and> (\<forall>res r'. performAction r sock ''coup'' tid = Inr (res, r')
             \<longrightarrow> error res \<noteq> Some ''Must coup with 10+ coins'')"
proof (intro conjI impI allI)
  assume "act \<noteq> ''coup''"
  from performAction_must_coup [OF assms this]
  show "\<exists>e. performAction r sock act tid = Inr (failure e, r)"
    by (simp add: rejected_def)
next
  assume a: "act \<noteq> ''coup'' \<and> socketId (players r ! currentPlayerIndex r) = sock
            \<and> actionInProgress r = None
            \<and> \<not> list_ex mustRevealInfluence (players r) \<and> \<not> list_ex mustChooseExchange (players r)
            \<and> \<not> list_ex mustShowCardToExaminer (players r) \<and> \<not> list_ex mustChooseExamine (players r)
            \<and> ACTIONS act \<noteq> None"
  then obtain ad where "ACTIONS act = Some ad" by blast
  with a assms show "performAction r sock act tid = Inr (failure ''Must coup with 10+ coins'', r)"
    by (intro performAction_must_coup_error [where pl = pl and ad = ad]) simp_all
next
  fix res r' assume "performAction r sock ''coup'' tid = Inr (res, r')"
  then show "error res \<noteq> Some ''Must coup with 10+ coins''" by (rule performAction_coup_error)
qed

theorem mandatory_coup_witness:
  "performAction roomRich ''sA'' ''income'' None = Inr (failure ''Must coup with 10+ coins'', roomRich)
   \<and> error (the (resultOf (performAction roomRich ''sA'' ''coup'' (Some ''B''))))
       \<noteq> Some ''Must coup with 10+ coins''"
proof -
  have found: "getPlayerBySocketId roomRich ''sA'' = Some (players roomRich ! 0)" by code_simp
  have rich: "10 \<le> coins (players roomRich ! 0)" by code_simp
  have idx: "currentPlayerIndex roomRich < length (players roomRich)" by code_simp
  note m = mandatory_coup [OF found rich idx]
  have pre: "''income'' \<noteq> ''coup'' \<and> socketId (players roomRich ! currentPlayerIndex roomRich) = ''sA''
            \<and> actionInProgress roomRich = None
            \<and> \<not> list_ex mustRevealInfluence (players roomRich)
            \<and> \<not> list_ex mustChooseExchange (players roomRich)
            \<and> \<not> list_ex mustShowCardToExaminer (players roomRich)
            \<and> \<not> list_ex mustChooseExamine (players roomRich)
            \<and> ACTIONS ''income'' \<noteq> None"
    by code_simp
  have one: "performAction roomRich ''sA'' ''income'' None
               = Inr (failure ''Must coup with 10+ coins'', roomRich)"
    using m [of "''income''" None, THEN conjunct2, THEN conjunct1] pre by blast
  obtain res r' where run: "performAction roomRich ''sA'' ''coup'' (Some ''B'') = Inr (res, r')"
    by (cases "performAction roomRich ''sA'' ''coup'' (Some ''B'')")
       (code_simp, auto)
  have "error res \<noteq> Some ''Must coup with 10+ coins''"
    using m [of "''income''" "Some ''B''", THEN conjunct2, THEN conjunct2] run by blast
  with one run show ?thesis by (simp add: resultOf_def)
qed

section \<open>Coin balances\<close>

lemma balances_simps [simp]:
  "balances (addLogToRoom ty ch r) = balances r"
  "balances (clearTimeout h r) = balances r"
  "balances (updateAction g r) = balances r"
  "balances (clearActionAndTimeout r) = balances r"
  "balances (clearActionTimer r) = balances r"
  "balances (loseInfluence r i n c) = balances r"
  "balances (returnAndRedraw sh i cl r) = balances r"
  "balances (logDefendedAction act r) = balances r"
  "balances (logActionProceeds act r) = balances r"
  "balances (logDeclaration act r) = balances r"
  "balances (startAction r pl act t ad tp) = balances r"
  "balances (snd (setTimeout cb r)) = balances r"
  by (auto simp: balances_def addLogToRoom_def clearTimeout_def updateAction_def clearActionAndTimeout_def
      clearActionTimer_def loseInfluence_def returnAndRedraw_def logDefendedAction_def
      logActionProceeds_def logDeclaration_def updatePlayer_def map_updateFirst Let_def
      startAction_def setTimeout_def
      split: option.splits)

lemma balances_fields [simp]:
  "balances (r\<lparr>deck := d\<rparr>) = balances r"
  "balances (r\<lparr>actionInProgress := a\<rparr>) = balances r"
  "balances (r\<lparr>pendingResponses := ps\<rparr>) = balances r"
  "balances (r\<lparr>currentPlayerIndex := n\<rparr>) = balances r"
  "balances (r\<lparr>roomResponseTimeout := t\<rparr>) = balances r"
  by (simp_all add: balances_def)

lemma nextTurn_balances: "nextTurn r = Inr r' \<Longrightarrow> balances r' = balances r"
  by (auto simp: balances_def dest!: nextTurn_frame)

lemma handleBlock_balances: "handleBlock r b bc = Inr r' \<Longrightarrow> balances r' = balances r"
  by (auto simp: handleBlock_def Let_def setTimeout_def balances_def updateAction_def
        addLogToRoom_def clearTimeout_def
      split: option.splits if_splits prod.splits
      dest!: nextTurn_frame)

lemma nextTurn_keeps:
  "nextTurn r = Inr r' \<Longrightarrow> balances r' = balances r \<and> actionInProgress r' = actionInProgress r"
  by (auto simp: balances_def dest!: nextTurn_frame)

lemma viaResolve_same: "balances r' = balances r \<Longrightarrow> viaResolve r r'"
  by (simp add: viaResolve_def)

lemma viaResolve_resolve: "resolveAction r0 = Inr r' \<Longrightarrow> balances r0 = balances r \<Longrightarrow> viaResolve r r'"
  by (auto simp: viaResolve_def)

lemma handleChallenge_bluff:
  assumes "handleChallenge sh r c = Inr r'" and "actionInProgress r = Some a"
      and "getPlayerById r (playerId a) = Some actor" and "ACTIONS (action a) = Some ad"
      and "\<not> holdsCard actor (adCard ad)"
  shows "balances r' = balances r \<and> actionInProgress r' = None"
  using assms
  by (auto simp: handleChallenge_def Let_def split: option.splits dest!: nextTurn_keeps)

lemma handleChallenge_viaResolve:
  "handleChallenge sh r c = Inr r' \<Longrightarrow> viaResolve r r'"
  by (auto simp: handleChallenge_def Let_def split: option.splits if_splits
      dest!: nextTurn_keeps intro: viaResolve_same viaResolve_resolve)

lemma respond_pending_balances:
  "respondToAction sh r sock resp = Inr (res, r') \<Longrightarrow> actionInProgress r' \<noteq> None \<Longrightarrow>
   balances r' = balances r"
  by (auto simp: respondToAction_def failure_def Let_def clearActionTimer_action
      split: option.splits if_splits sum.splits
      dest!: handleChallenge_post handleBlock_balances nextTurn_keeps resolveAction_post)

lemma respond_block_stands:
  "respondToAction sh r sock resp = Inr (res, r') \<Longrightarrow> actionInProgress r = Some a \<Longrightarrow>
   phase a = Block \<Longrightarrow> rtype resp = ''pass'' \<Longrightarrow> balances r' = balances r"
  by (auto simp: respondToAction_def failure_def Let_def
      split: option.splits if_splits sum.splits
      dest!: nextTurn_keeps)

lemma respond_block_declared:
  "respondToAction sh r sock resp = Inr (res, r') \<Longrightarrow> rtype resp = ''block'' \<Longrightarrow>
   balances r' = balances r"
  by (auto simp: respondToAction_def failure_def Let_def
      split: option.splits if_splits sum.splits
      dest!: handleBlock_balances)

lemma getPlayerById_frame [simp]:
  "getPlayerById (updateAction g r) i = getPlayerById r i"
  "getPlayerById (r\<lparr>pendingResponses := ps\<rparr>) i = getPlayerById r i"
  "getPlayerById (addLogToRoom ty ch r) i = getPlayerById r i"
  by (simp_all add: getPlayerById_def updateAction_def addLogToRoom_def)

lemma respond_bluff_caught:
  assumes "respondToAction sh r sock resp = Inr (res, r')" and "rtype resp = ''challenge''"
      and "actionInProgress r = Some a"
      and "getPlayerById r (playerId a) = Some actor" and "ACTIONS (action a) = Some ad"
      and "\<not> holdsCard actor (adCard ad)"
  shows "balances r' = balances r \<and> (success res \<longrightarrow> actionInProgress r' = None)"
  using assms
  by (auto simp: respondToAction_def failure_def Let_def
      split: option.splits if_splits sum.splits
      dest!: handleChallenge_bluff [where a = "a\<lparr>responses := (pid pl, resp) # responses a,
                 respondedCount := totalResponders a - int (length (removeAll (pid pl) (pendingResponses r)))\<rparr>" for pl])

lemma viaResolve_frame [simp]:
  "viaResolve (updateAction g r) r' = viaResolve r r'"
  "viaResolve (addLogToRoom ty ch r) r' = viaResolve r r'"
  "viaResolve (r\<lparr>pendingResponses := ps\<rparr>) r' = viaResolve r r'"
  by (simp_all add: viaResolve_def)

lemma blockWindowElapsed_balances: "blockWindowElapsed r = Inr r' \<Longrightarrow> balances r' = balances r"
  by (auto simp: blockWindowElapsed_def split: option.splits if_splits dest!: nextTurn_keeps)

lemma respond_viaResolve:
  "respondToAction sh r sock resp = Inr (res, r') \<Longrightarrow> viaResolve r r'"
  by (auto simp: respondToAction_def failure_def Let_def
      split: option.splits if_splits sum.splits
      dest!: handleChallenge_viaResolve handleBlock_balances nextTurn_keeps
      intro: viaResolve_same viaResolve_resolve)

lemma challengeBlock_block_stands:
  assumes "challengeBlock sh r sock = Inr (res, r')" and "actionInProgress r = Some a"
      and "blockerId a = Some b" and "getPlayerById r b = Some blockerP"
      and "holdsCard blockerP (blockCard a)"
  shows "balances r' = balances r"
proof (cases "truthy (blockCard a)")
  case False
  with assms show ?thesis by (simp add: challengeBlock_def failure_def)
next
  case True
  show ?thesis
  proof (cases "getPlayerBySocketId r sock")
    case None
    with assms True show ?thesis by (simp add: challengeBlock_def)
  next
    case (Some ch)
    show ?thesis
    proof (cases "Some (pid ch) = blockerId a")
      case True
      with assms \<open>truthy (blockCard a)\<close> Some show ?thesis by (simp add: challengeBlock_def)
    next
      case False
      with assms \<open>truthy (blockCard a)\<close> Some show ?thesis
        by (auto simp: challengeBlock_def Let_def split: sum.splits dest!: nextTurn_keeps)
    qed
  qed
qed

lemma eligible_frame [simp]:
  "eligibleResponders (logDeclaration act r) i = eligibleResponders r i"
  "eligibleResponders (startAction r pl act' t ad tp) i = eligibleResponders r i"
  by (auto simp: eligibleResponders_def logDeclaration_def startAction_def addLogToRoom_def
        clearTimeout_def Let_def split: option.splits)

lemma startAction_action [simp]: "\<exists>a. actionInProgress (startAction r pl act t ad tp) = Some a"
  by (simp add: startAction_def Let_def)

lemma setTimeout_frame:
  "setTimeout cb r = (h, r1) \<Longrightarrow>
     balances r1 = balances r \<and> actionInProgress r1 = actionInProgress r
     \<and> pendingResponses r1 = pendingResponses r \<and> seats r1 = seats r"
  by (auto simp: setTimeout_def balances_def seats_def)

lemma declareAction_cases:
  assumes "declareAction r pl act t ad tp = Inr (res, r')"
  shows "res = ok \<and> ((\<exists>r0. balances r0 = balances r \<and> actionInProgress r0 \<noteq> None \<and> resolveAction r0 = Inr r')
                    \<or> balances r' = balances r)"
proof (cases "challengeable ad \<or> blockable ad")
  case False
  with assms show ?thesis
    by (auto simp: declareAction_def Let_def split: sum.splits
        intro!: exI [of _ "logDeclaration act (startAction r pl act t ad tp)"])
next
  case cb: True
  show ?thesis
  proof (cases "eligibleResponders r (pid pl) = []")
    case True
    with assms cb show ?thesis
      apply (simp add: declareAction_def Let_def split: sum.splits)
      apply (rule disjI1)
      apply (rule exI [of _ "updateAction (\<lambda>b. b\<lparr>totalResponders := 0, respondedCount := 0\<rparr>)
               ((if blockable ad \<and> truthy t
                 then updateAction (\<lambda>b. b\<lparr>blockableByTarget := True, targetCanBlock := t\<rparr>)
                        (logDeclaration act (startAction r pl act t ad tp))
                 else logDeclaration act (startAction r pl act t ad tp))
                \<lparr>pendingResponses := []\<rparr>)"])
      apply (auto split: if_splits)
      done
  next
    case False
    with assms cb show ?thesis
      by (auto simp: declareAction_def Let_def split: if_splits prod.splits dest!: setTimeout_frame)
  qed
qed

lemma clearActionTimer_action_Some [simp]:
  "(\<exists>y. actionInProgress (clearActionTimer r) = Some y) \<longleftrightarrow> (\<exists>y. actionInProgress r = Some y)"
  using clearActionTimer_action [of r] by auto

lemma challengeBlock_pending_balances:
  assumes "challengeBlock sh r sock = Inr (res, r')" and "actionInProgress r' \<noteq> None"
  shows "balances r' = balances r"
proof (cases "actionInProgress r")
  case None
  with assms show ?thesis by (simp add: challengeBlock_def)
next
  case (Some a)
  show ?thesis
  proof (cases "(case blockerId a of Some b \<Rightarrow> getPlayerById r b | None \<Rightarrow> None)")
    case None
    with assms Some show ?thesis by (simp add: challengeBlock_def)
  next
    case bl: (Some blockerP)
    show ?thesis
    proof (cases "truthy (blockCard a)")
      case False
      with assms Some bl show ?thesis by (simp add: challengeBlock_def)
    next
      case tr: True
      show ?thesis
      proof (cases "getPlayerBySocketId r sock")
        case None
        with assms Some bl tr show ?thesis by (simp add: challengeBlock_def)
      next
        case ch: (Some challenger)
        show ?thesis
        proof (cases "Some (pid challenger) = blockerId a")
          case True
          with assms Some bl tr ch show ?thesis by (simp add: challengeBlock_def)
        next
          case False
          with assms Some bl tr ch show ?thesis
            by (auto simp: challengeBlock_def Let_def clearActionTimer_action
                split: sum.splits if_splits dest!: nextTurn_keeps resolveAction_post)
        qed
      qed
    qed
  qed
qed

lemma challengeBlock_viaResolve:
  assumes "challengeBlock sh r sock = Inr (res, r')"
  shows "viaResolve r r'"
proof (cases "actionInProgress r")
  case None
  with assms show ?thesis by (simp add: challengeBlock_def)
next
  case (Some a)
  show ?thesis
  proof (cases "(case blockerId a of Some b \<Rightarrow> getPlayerById r b | None \<Rightarrow> None)")
    case None
    with assms Some show ?thesis by (auto simp: challengeBlock_def intro: viaResolve_same)
  next
    case bl: (Some blockerP)
    show ?thesis
    proof (cases "truthy (blockCard a)")
      case False
      with assms Some bl show ?thesis by (auto simp: challengeBlock_def intro: viaResolve_same)
    next
      case tr: True
      show ?thesis
      proof (cases "getPlayerBySocketId r sock")
        case None
        with assms Some bl tr show ?thesis by (simp add: challengeBlock_def)
      next
        case ch: (Some challenger)
        show ?thesis
        proof (cases "Some (pid challenger) = blockerId a")
          case True
          with assms Some bl tr ch show ?thesis
            by (auto simp: challengeBlock_def intro: viaResolve_same)
        next
          case False
          with assms Some bl tr ch show ?thesis
            by (auto simp: challengeBlock_def Let_def
                split: sum.splits if_splits dest!: nextTurn_keeps
                intro: viaResolve_same viaResolve_resolve)
        qed
      qed
    qed
  qed
qed

lemma performAction_cases:
  assumes "performAction r sock act tid = Inr (res, r')"
  shows "r' = r \<or> (\<exists>r0. balances r0 = balances r \<and> actionInProgress r0 \<noteq> None \<and> resolveAction r0 = Inr r')
         \<or> balances r' = balances r"
  using assms unfolding performAction_def Let_def
  by (simp split: option.splits if_splits) (auto dest!: declareAction_cases)

lemma performAction_pending_balances:
  "performAction r sock act tid = Inr (res, r') \<Longrightarrow> actionInProgress r' \<noteq> None \<Longrightarrow>
   balances r' = balances r"
  using performAction_cases [of r sock act tid res r'] resolveAction_clears by auto

lemma performAction_viaResolve:
  "performAction r sock act tid = Inr (res, r') \<Longrightarrow> viaResolve r r'"
  using performAction_cases [of r sock act tid res r'] by (auto simp: viaResolve_def)

lemma responseWindowElapsed_cases:
  "responseWindowElapsed r = Inr r' \<Longrightarrow>
     r' = r \<or> (\<exists>r0. balances r0 = balances r \<and> actionInProgress r0 \<noteq> None \<and> resolveAction r0 = Inr r')"
proof -
  assume run: "responseWindowElapsed r = Inr r'"
  show ?thesis
  proof (cases "actionInProgress r")
    case None
    with run show ?thesis by (simp add: responseWindowElapsed_def)
  next
    case (Some a)
    show ?thesis
    proof (cases "phase a = Waiting")
      case False
      with run Some show ?thesis by (simp add: responseWindowElapsed_def)
    next
      case True
      let ?r0 = "if action a = ''foreignAid'' then addLogToRoom ''info'' None r else r"
      from run Some True have "resolveAction ?r0 = Inr r'"
        by (simp add: responseWindowElapsed_def)
      moreover have "balances ?r0 = balances r" "actionInProgress ?r0 \<noteq> None"
        using Some by simp_all
      ultimately show ?thesis by blast
    qed
  qed
qed

lemma blockWindowElapsed_cleared:
  "blockWindowElapsed r = Inr r' \<Longrightarrow> actionInProgress r' \<noteq> None \<Longrightarrow> r' = r"
  by (auto simp: blockWindowElapsed_def split: option.splits if_splits dest!: nextTurn_keeps)

lemma run_viaResolve: "run sh r op = Inr (res, r') \<Longrightarrow> viaResolve r r'"
proof (cases op)
  case ResponseWindowElapsed
  assume "run sh r op = Inr (res, r')"
  with ResponseWindowElapsed show ?thesis
    by (auto simp: viaResolve_def split: sum.splits dest!: responseWindowElapsed_cases)
next
  case BlockWindowElapsed
  assume "run sh r op = Inr (res, r')"
  with BlockWindowElapsed show ?thesis
    by (auto simp: viaResolve_def split: sum.splits dest!: blockWindowElapsed_balances)
qed (auto dest: performAction_viaResolve respond_viaResolve challengeBlock_viaResolve)

lemma run_pending:
  "run sh r op = Inr (res, r') \<Longrightarrow> actionInProgress r' \<noteq> None \<Longrightarrow> balances r' = balances r"
proof (cases op)
  case ResponseWindowElapsed
  assume "run sh r op = Inr (res, r')" "actionInProgress r' \<noteq> None"
  with ResponseWindowElapsed show ?thesis
    by (auto split: sum.splits dest!: responseWindowElapsed_cases resolveAction_clears)
next
  case BlockWindowElapsed
  assume "run sh r op = Inr (res, r')" "actionInProgress r' \<noteq> None"
  with BlockWindowElapsed show ?thesis
    by (auto split: sum.splits dest!: blockWindowElapsed_balances)
qed (auto dest: performAction_pending_balances respond_pending_balances challengeBlock_pending_balances)

lemma run_cancels:
  assumes "run sh r op = Inr (res, r')" and "cancels r op"
  shows "balances r' = balances r"
proof (cases op)
  case (Respond sock resp)
  with assms obtain a where a: "actionInProgress r = Some a"
    by (auto split: option.splits)
  from assms Respond a consider
      (bluff) actor ad where "rtype resp = ''challenge''" "getPlayerById r (playerId a) = Some actor"
         "ACTIONS (action a) = Some ad" "\<not> holdsCard actor (adCard ad)"
    | (stands) "rtype resp = ''pass''" "phase a = Block"
    | (block) "rtype resp = ''block''"
    by (auto split: option.splits)
  then show ?thesis
  proof cases
    case bluff
    with assms Respond a respond_bluff_caught [of sh r sock resp res r' a actor ad]
    show ?thesis by simp
  next
    case stands
    with assms Respond a respond_block_stands [of sh r sock resp res r' a] show ?thesis by simp
  next
    case block
    with assms Respond respond_block_declared [of sh r sock resp res r'] show ?thesis by simp
  qed
next
  case (ChallengeBlock sock)
  with assms obtain a b blockerP where "actionInProgress r = Some a" "blockerId a = Some b"
    "getPlayerById r b = Some blockerP" "holdsCard blockerP (blockCard a)"
    by (auto split: option.splits)
  with assms ChallengeBlock challengeBlock_block_stands [of sh r sock res r' a b blockerP]
  show ?thesis by simp
next
  case BlockWindowElapsed
  with assms show ?thesis by (auto split: sum.splits dest!: blockWindowElapsed_balances)
qed (use assms in auto)

lemma finishAction_balances: "finishAction r = Inr r' \<Longrightarrow> balances r' = balances r"
  by (auto simp: finishAction_def dest!: nextTurn_keeps)

lemma resolveAction_deducts_cost:
  assumes "resolveAction r = Inr r'" and "actionInProgress r = Some a"
      and "getPlayerById r (playerId a) = Some actor" and "ACTIONS (action a) = Some ad"
      and "cost ad = Some c"
  shows "balances r' = balances (updatePlayer (playerId a) (\<lambda>p. p\<lparr>coins := coins p - c\<rparr>) r)"
proof -
  have pidA: "pid actor = playerId a"
    using assms(3) by (auto simp: getPlayerById_def find_Some_iff)
  have "action a = ''assassinate'' \<or> action a = ''coup''"
    using assms(4,5) by (auto simp: ACTIONS_def split: if_splits)
  then show ?thesis
    using assms pidA
    by (auto simp: resolveAction_def Let_def split: option.splits
        dest!: finishAction_balances)
qed

text \<open>
  C6.  Every operation of the engine (a declaration, a response, a challenge of a block, the
  end of a response window) leaves every coin balance as it was unless it runs
  \<^verbatim>\<open>resolveAction\<close>, and then the balances change inside \<^verbatim>\<open>resolveAction\<close> only; an
  operation after which an action is still pending has changed no balance, and neither has one
  that cancels the action (the initiator is caught bluffing, or the block stands).  So the
  balance of the initiator of a cancelled action is the one at declaration.  The cost of
  the action is taken from the initiator inside \<^verbatim>\<open>resolveAction\<close>.
\<close>

theorem coins_spent_only_at_resolution:
  "(run sh r op = Inr (res, r') \<longrightarrow>
       (balances r' = balances r \<or> (\<exists>r0. balances r0 = balances r \<and> resolveAction r0 = Inr r'))
     \<and> (actionInProgress r' \<noteq> None \<longrightarrow> balances r' = balances r)
     \<and> (cancels r op \<longrightarrow> balances r' = balances r))
   \<and> (actionInProgress r = Some a \<and> getPlayerById r (playerId a) = Some actor
        \<and> ACTIONS (action a) = Some ad \<and> cost ad = Some c \<and> resolveAction r = Inr r''
      \<longrightarrow> balances r'' = balances (updatePlayer (playerId a) (\<lambda>p. p\<lparr>coins := coins p - c\<rparr>) r))"
  using run_viaResolve [of sh r op res r'] run_pending [of sh r op res r']
        run_cancels [of sh r op res r'] resolveAction_deducts_cost [of r r'' a actor ad c]
  by (simp add: viaResolve_def)

theorem coins_spent_only_at_resolution_witness:
  "balances roomPoor = [3, 2]
   \<and> balances roomAssassinDeclared = [3, 2]
   \<and> balances roomBluffCaught = [3, 2]
   \<and> balances roomAssassinated = [0, 2]
   \<and> balances roomBlockStands = [2, 2]"
proof -
  note t = coins_spent_only_at_resolution
  have d: "run keepOrder roomPoor (Declare ''sA'' ''assassinate'' (Some ''B''))
             = Inr (ok, roomAssassinDeclared)"
    by code_simp
  have dp: "actionInProgress roomAssassinDeclared \<noteq> None" by code_simp
  have b0: "balances roomPoor = [3, 2]" by code_simp
  have b1: "balances roomAssassinDeclared = balances roomPoor"
    using t [of keepOrder roomPoor "Declare ''sA'' ''assassinate'' (Some ''B'')" ok roomAssassinDeclared]
          d dp by blast
  have c: "run keepOrder roomAssassinDeclared (Respond ''sB'' challenge) = Inr (ok, roomBluffCaught)"
    by code_simp
  have cc: "cancels roomAssassinDeclared (Respond ''sB'' challenge)" by code_simp
  have b2: "balances roomBluffCaught = balances roomAssassinDeclared"
    using t [of keepOrder roomAssassinDeclared "Respond ''sB'' challenge" ok roomBluffCaught] c cc
    by blast
  have e: "actionInProgress roomAssassinDeclared = Some (the (actionInProgress roomAssassinDeclared))
           \<and> getPlayerById roomAssassinDeclared (playerId (the (actionInProgress roomAssassinDeclared)))
               = Some (players roomAssassinDeclared ! 0)
           \<and> ACTIONS (action (the (actionInProgress roomAssassinDeclared)))
               = Some (the (ACTIONS ''assassinate''))
           \<and> cost (the (ACTIONS ''assassinate'')) = Some 3
           \<and> resolveAction roomAssassinDeclared = Inr roomAssassinated"
    by code_simp
  have b3: "balances roomAssassinated
              = balances (updatePlayer (playerId (the (actionInProgress roomAssassinDeclared)))
                           (\<lambda>p. p\<lparr>coins := coins p - 3\<rparr>) roomAssassinDeclared)"
    using t [of keepOrder roomAssassinDeclared "Respond ''sB'' challenge" ok roomBluffCaught
                "the (actionInProgress roomAssassinDeclared)" "players roomAssassinDeclared ! 0"
                "the (ACTIONS ''assassinate'')" 3 roomAssassinated] e
    by blast
  have b3': "balances (updatePlayer (playerId (the (actionInProgress roomAssassinDeclared)))
                           (\<lambda>p. p\<lparr>coins := coins p - 3\<rparr>) roomAssassinDeclared) = [0, 2]"
    by code_simp
  have p: "run keepOrder roomAidBlocked (Respond ''sA'' pass) = Inr (ok, roomBlockStands)"
    by code_simp
  have pc: "cancels roomAidBlocked (Respond ''sA'' pass)" by code_simp
  have b4: "balances roomBlockStands = balances roomAidBlocked"
    using t [of keepOrder roomAidBlocked "Respond ''sA'' pass" ok roomBlockStands] p pc by blast
  have b4': "balances roomAidBlocked = [2, 2]" by code_simp
  from b0 b1 b2 b3 b3' b4 b4' show ?thesis by simp
qed

section \<open>Repeated responses\<close>

lemma handleBlock_responses:
  "handleBlock r b bc = Inr r' \<Longrightarrow>
     actionInProgress r' = None
     \<or> map_option responses (actionInProgress r') = map_option responses (actionInProgress r)"
  by (auto simp: handleBlock_def Let_def setTimeout_def updateAction_def addLogToRoom_def
        clearTimeout_def option.map_comp comp_def
      split: option.splits if_splits prod.splits
      dest!: nextTurn_frame)

lemma clearActionTimer_action_eq:
  "actionInProgress (clearActionTimer r)
     = map_option (\<lambda>b. b\<lparr>responseTimeout := None\<rparr>) (actionInProgress r)"
  by (auto simp: clearActionTimer_def updateAction_def clearTimeout_def split: option.splits)

lemma respond_records:
  assumes "respondToAction sh r sock resp = Inr (res, r1)" and "success res"
  shows "\<exists>pl a. getPlayerBySocketId r sock = Some pl \<and> actionInProgress r = Some a
           \<and> (actionInProgress r1 = None
                \<or> map_option responses (actionInProgress r1) = Some ((pid pl, resp) # responses a))"
  using assms
  by (auto simp: respondToAction_def failure_def Let_def clearActionTimer_action_eq
      split: option.splits if_splits sum.splits
      dest!: handleChallenge_post handleBlock_responses nextTurn_frame resolveAction_post)

lemma respond_failure_same:
  "respondToAction sh r sock resp = Inr (res, r') \<Longrightarrow> \<not> success res \<Longrightarrow> r' = r"
  by (auto simp: respondToAction_def failure_def ok_def Let_def
      split: option.splits if_splits sum.splits)

lemma performAction_bad_index:
  "getPlayerBySocketId r sock = Some pl \<Longrightarrow> \<not> currentPlayerIndex r < length (players r) \<Longrightarrow>
   performAction r sock act tid = Inl TypeError"
  unfolding performAction_def by (simp only: option.case simp_thms if_True if_False)

lemma performAction_pending_same:
  assumes "performAction r sock act tid = Inr (res, r')" and "actionInProgress r \<noteq> None"
  shows "r' = r"
proof (cases "getPlayerBySocketId r sock")
  case None
  from performAction_not_found [OF None, of act tid] assms(1) show ?thesis by simp
next
  case (Some pl)
  show ?thesis
  proof (cases "currentPlayerIndex r < length (players r)")
    case False
    from performAction_bad_index [OF Some False, of act tid] assms(1) show ?thesis by simp
  next
    case True
    show ?thesis
    proof (cases "socketId (players r ! currentPlayerIndex r) = sock")
      case False
      from performAction_not_your_turn [OF Some True False, of act tid] assms(1)
      show ?thesis by simp
    next
      case same: True
      from performAction_already_in_progress [OF Some True same assms(2), of act tid] assms(1)
      show ?thesis by simp
    qed
  qed
qed

lemma challengeBlock_pending_same:
  assumes "challengeBlock sh r sock = Inr (res, r')" and "actionInProgress r' \<noteq> None"
  shows "r' = r"
proof (cases "actionInProgress r")
  case None
  with assms show ?thesis by (simp add: challengeBlock_def)
next
  case (Some a)
  show ?thesis
  proof (cases "(case blockerId a of Some b \<Rightarrow> getPlayerById r b | None \<Rightarrow> None)")
    case None
    with assms Some show ?thesis by (simp add: challengeBlock_def)
  next
    case bl: (Some blockerP)
    show ?thesis
    proof (cases "truthy (blockCard a)")
      case False
      with assms Some bl show ?thesis by (simp add: challengeBlock_def)
    next
      case tr: True
      show ?thesis
      proof (cases "getPlayerBySocketId r sock")
        case None
        with assms Some bl tr show ?thesis by (simp add: challengeBlock_def)
      next
        case ch: (Some challenger)
        show ?thesis
        proof (cases "Some (pid challenger) = blockerId a")
          case True
          with assms Some bl tr ch show ?thesis by (simp add: challengeBlock_def)
        next
          case False
          with assms Some bl tr ch show ?thesis
            by (auto simp: challengeBlock_def Let_def clearActionTimer_action
                split: sum.splits if_splits dest!: nextTurn_frame resolveAction_post)
        qed
      qed
    qed
  qed
qed

lemma responseWindowElapsed_pending_same:
  "responseWindowElapsed r = Inr r' \<Longrightarrow> actionInProgress r' \<noteq> None \<Longrightarrow> r' = r"
  by (auto dest!: responseWindowElapsed_cases resolveAction_clears)

lemma run_keeps_responses:
  assumes "run sh q op = Inr (res, q')" and "actionInProgress q = Some a"
      and "actionInProgress q' = Some a'"
  shows "set (responses a) \<subseteq> set (responses a')"
proof (cases op)
  case (Declare sock act tid)
  with assms(1) have "performAction q sock act tid = Inr (res, q')" by simp
  from performAction_pending_same [OF this] assms(2,3) show ?thesis by simp
next
  case (Respond sock resp)
  with assms(1) have run: "respondToAction sh q sock resp = Inr (res, q')" by simp
  show ?thesis
  proof (cases "success res")
    case False
    from respond_failure_same [OF run False] assms(2,3) show ?thesis by simp
  next
    case True
    from respond_records [OF run True] assms(2,3) show ?thesis by auto
  qed
next
  case (ChallengeBlock sock)
  with assms(1) have "challengeBlock sh q sock = Inr (res, q')" by simp
  from challengeBlock_pending_same [OF this] assms(2,3) show ?thesis by simp
next
  case ResponseWindowElapsed
  with assms(1) have "responseWindowElapsed q = Inr q'" by (simp split: sum.splits)
  from responseWindowElapsed_pending_same [OF this] assms(2,3) show ?thesis by simp
next
  case BlockWindowElapsed
  with assms(1) have "blockWindowElapsed q = Inr q'" by (simp split: sum.splits)
  from blockWindowElapsed_cleared [OF this] assms(2,3) show ?thesis by simp
qed

lemma hasResponded_mono:
  "set (responses a) \<subseteq> set (responses a') \<Longrightarrow> hasResponded a i \<Longrightarrow> hasResponded a' i"
proof -
  assume sub: "set (responses a) \<subseteq> set (responses a')" and h: "hasResponded a i"
  show ?thesis
  proof (cases "i \<in> set inheritedKeys")
    case True
    then show ?thesis by (simp add: hasResponded_def)
  next
    case False
    with h have "i \<in> fst ` set (responses a)"
      by (simp add: hasResponded_def map_of_eq_None_iff)
    with sub have "i \<in> fst ` set (responses a')" by blast
    then show ?thesis by (simp add: hasResponded_def map_of_eq_None_iff)
  qed
qed

lemma recorded_rejected:
  assumes "getPlayerBySocketId s sock = Some p" and "actionInProgress s = Some b"
      and "hasResponded b (pid p)"
  shows "respondToAction sh s sock resp =
           Inr (failure (if pid p \<in> set (pendingResponses s) then ''Already responded''
                         else ''Not eligible to respond''), s)"
  using assms by (simp add: respondToAction_def)

lemma respond_recorded:
  assumes "respondToAction sh r sock resp = Inr (res, r1)" and "success res"
      and "actionInProgress r1 = Some a1"
  shows "\<exists>pl pl1. getPlayerBySocketId r sock = Some pl \<and> getPlayerBySocketId r1 sock = Some pl1
           \<and> pid pl1 = pid pl \<and> hasResponded a1 (pid pl) \<and> pid pl \<notin> set (pendingResponses r1)"
proof -
  from respond_first [OF assms(1,2)] obtain pl where
    pl: "getPlayerBySocketId r sock = Some pl" and st: "seats r1 = seats r"
    and post: "actionInProgress r1 = None \<or> pid pl \<notin> set (pendingResponses r1)"
    by blast
  from socket_lookup_seats [OF st pl] obtain pl1 where
    pl1: "getPlayerBySocketId r1 sock = Some pl1" "pid pl1 = pid pl" by blast
  from respond_records [OF assms(1,2)] pl assms(3)
  have "map_of (responses a1) (pid pl) \<noteq> None" by auto
  then have "hasResponded a1 (pid pl)" by (simp add: hasResponded_def)
  with pl pl1 post assms(3) show ?thesis by simp
qed

text \<open>
  The claim C7 names the error of a second pass as "already responded".  Player B of three
  passes on the Tax of player A while player C has not answered; the second pass of B is
  rejected with the error of the membership test that comes first.
\<close>

theorem second_pass_not_already_responded:
  "resultOf (respondToAction keepOrder roomTax ''sB'' pass) = Some ok
   \<and> actionInProgress roomTaxPassed \<noteq> None
   \<and> respondToAction keepOrder roomTaxPassed ''sB'' pass
       = Inr (failure ''Not eligible to respond'', roomTaxPassed)
   \<and> resultOf (respondToAction keepOrder roomTaxPassed ''sB'' pass)
       \<noteq> Some (failure ''Already responded'')"
  by code_simp

text \<open>
  C7, as the code has it.  A player whose response (a pass or any other) is recorded in the
  pending action gets every further response rejected, and the room stays as it is: neither
  the recorded responses nor the pending set change.  The error is "Already responded" when
  the player is in the pending set, and "Not eligible to respond" when not, since the
  membership test comes first.  An accepted response that leaves the action pending is
  recorded and takes the player out of the pending set, so the next response of that player
  gets "Not eligible to respond"; the record stays through every later step of the engine
  that leaves the action pending, and when a block of another player opens a new pending
  set with that player in it, the error is "Already responded".
\<close>

theorem recorded_response_rejected:
  "(respondToAction sh r sock resp = Inr (res, r1) \<and> success res \<and> actionInProgress r1 = Some a1
      \<longrightarrow> (\<exists>pl pl1. getPlayerBySocketId r sock = Some pl \<and> getPlayerBySocketId r1 sock = Some pl1
                \<and> pid pl1 = pid pl
                \<and> hasResponded a1 (pid pl) \<and> pid pl \<notin> set (pendingResponses r1)))
   \<and> (run sh q op = Inr (res', q') \<and> actionInProgress q = Some a \<and> actionInProgress q' = Some a'
        \<and> hasResponded a i
      \<longrightarrow> hasResponded a' i)
   \<and> (getPlayerBySocketId s sock' = Some p \<and> actionInProgress s = Some b \<and> hasResponded b (pid p)
      \<longrightarrow> respondToAction sh' s sock' resp' =
            Inr (failure (if pid p \<in> set (pendingResponses s) then ''Already responded''
                          else ''Not eligible to respond''), s))"
proof -
  have A: "respondToAction sh r sock resp = Inr (res, r1) \<and> success res \<and> actionInProgress r1 = Some a1
      \<longrightarrow> (\<exists>pl pl1. getPlayerBySocketId r sock = Some pl \<and> getPlayerBySocketId r1 sock = Some pl1
                \<and> pid pl1 = pid pl
                \<and> hasResponded a1 (pid pl) \<and> pid pl \<notin> set (pendingResponses r1))"
    using respond_recorded [of sh r sock resp res r1 a1] by simp
  have B: "run sh q op = Inr (res', q') \<and> actionInProgress q = Some a \<and> actionInProgress q' = Some a'
        \<and> hasResponded a i
      \<longrightarrow> hasResponded a' i"
    using hasResponded_mono [OF run_keeps_responses [of sh q op res' q' a a'], of i] by simp
  have C: "getPlayerBySocketId s sock' = Some p \<and> actionInProgress s = Some b \<and> hasResponded b (pid p)
      \<longrightarrow> respondToAction sh' s sock' resp' =
            Inr (failure (if pid p \<in> set (pendingResponses s) then ''Already responded''
                          else ''Not eligible to respond''), s)"
    using recorded_rejected [of s sock' p b sh' resp'] by simp
  show ?thesis by (rule conjI [OF A conjI [OF B C]])
qed

theorem recorded_response_rejected_witness:
  "respondToAction keepOrder roomTaxPassed ''sB'' pass
     = Inr (failure ''Not eligible to respond'', roomTaxPassed)
   \<and> ''B'' \<in> set (pendingResponses roomAid3Blocked)
   \<and> respondToAction keepOrder roomAid3Blocked ''sB'' pass
     = Inr (failure ''Already responded'', roomAid3Blocked)"
proof -
  note t = recorded_response_rejected
  note recorded = t [THEN conjunct1, rule_format, OF conjI, OF _ conjI]
  note kept = t [THEN conjunct2, THEN conjunct1, rule_format, OF conjI, OF _ conjI, OF _ _ conjI]
  note again = t [THEN conjunct2, THEN conjunct2, rule_format, OF conjI, OF _ conjI]
  have s: "success ok" by (simp add: ok_def)
  have a1: "respondToAction keepOrder roomTax ''sB'' pass = Inr (ok, roomTaxPassed)"
    and a2: "actionInProgress roomTaxPassed = Some (the (actionInProgress roomTaxPassed))"
    and a3: "getPlayerBySocketId roomTax ''sB'' = Some (players roomTax ! 1)"
    and a4: "getPlayerBySocketId roomTaxPassed ''sB'' = Some (players roomTaxPassed ! 1)"
    and a5: "pid (players roomTax ! 1) = ''B''" "pid (players roomTaxPassed ! 1) = ''B''"
    and a6: "''B'' \<notin> set (pendingResponses roomTaxPassed)"
    by code_simp+
  from recorded [OF a1 s a2] a3 a5
  have h1: "hasResponded (the (actionInProgress roomTaxPassed)) (pid (players roomTaxPassed ! 1))"
    by auto
  from again [OF a4 a2 h1, of keepOrder pass] a5 a6
  have r1: "respondToAction keepOrder roomTaxPassed ''sB'' pass
              = Inr (failure ''Not eligible to respond'', roomTaxPassed)"
    by simp
  have b1: "respondToAction keepOrder roomAid3 ''sB'' pass = Inr (ok, roomAid3Passed)"
    and b2: "actionInProgress roomAid3Passed = Some (the (actionInProgress roomAid3Passed))"
    and b3: "getPlayerBySocketId roomAid3 ''sB'' = Some (players roomAid3 ! 1)"
    and b4: "pid (players roomAid3 ! 1) = ''B''"
    and b5: "run keepOrder roomAid3Passed (Respond ''sC'' (block ''Duke'')) = Inr (ok, roomAid3Blocked)"
    and b6: "actionInProgress roomAid3Blocked = Some (the (actionInProgress roomAid3Blocked))"
    and b7: "getPlayerBySocketId roomAid3Blocked ''sB'' = Some (players roomAid3Blocked ! 1)"
    and b8: "pid (players roomAid3Blocked ! 1) = ''B''"
    and b9: "''B'' \<in> set (pendingResponses roomAid3Blocked)"
    by code_simp+
  from recorded [OF b1 s b2] b3 b4
  have h2: "hasResponded (the (actionInProgress roomAid3Passed)) ''B''" by auto
  from kept [OF b5 b2 b6 h2] b8
  have h3: "hasResponded (the (actionInProgress roomAid3Blocked)) (pid (players roomAid3Blocked ! 1))"
    by simp
  from again [OF b7 b6 h3, of keepOrder pass] b8 b9
  have r2: "respondToAction keepOrder roomAid3Blocked ''sB'' pass
              = Inr (failure ''Already responded'', roomAid3Blocked)"
    by simp
  from r1 b9 r2 show ?thesis by simp
qed

section \<open>Disconnected players and the pending action\<close>


lemma timers_simps [simp]:
  "timers (addLogToRoom ty ch r) = timers r"
  "timers (updateAction g r) = timers r"
  "timers (updatePlayer i f r) = timers r"
  "timers (loseInfluence r i n c) = timers r"
  "timers (logDeclaration act r) = timers r"
  "timerSeq (addLogToRoom ty ch r) = timerSeq r"
  "timerSeq (updateAction g r) = timerSeq r"
  "timerSeq (updatePlayer i f r) = timerSeq r"
  "timerSeq (loseInfluence r i n c) = timerSeq r"
  "timerSeq (logDeclaration act r) = timerSeq r"
  "timerSeq (clearActionAndTimeout r) = timerSeq r"
  "timerSeq (startAction r pl act t ad tp) = timerSeq r"
  "roomResponseTimeout (addLogToRoom ty ch r) = roomResponseTimeout r"
  "roomResponseTimeout (updateAction g r) = roomResponseTimeout r"
  "roomResponseTimeout (logDeclaration act r) = roomResponseTimeout r"
  "roomResponseTimeout (startAction r pl act t ad tp) = None"
  by (auto simp: addLogToRoom_def updateAction_def updatePlayer_def loseInfluence_def
        logDeclaration_def clearActionAndTimeout_def clearTimeout_def startAction_def Let_def
      split: option.splits)




lemma timers_fields [simp]:
  "timers (r\<lparr>deck := d\<rparr>) = timers r"
  "timers (r\<lparr>actionInProgress := a\<rparr>) = timers r"
  "timers (r\<lparr>pendingResponses := ps\<rparr>) = timers r"
  "timerSeq (r\<lparr>deck := d\<rparr>) = timerSeq r"
  "timerSeq (r\<lparr>actionInProgress := a\<rparr>) = timerSeq r"
  "timerSeq (r\<lparr>pendingResponses := ps\<rparr>) = timerSeq r"
  by simp_all


lemma startAction_fields [simp]:
  "players (startAction r pl act t ad tp) = players r"
  "players (logDeclaration act r) = players r"
  "deck (startAction r pl act t ad tp) = deck r"
  "deck (logDeclaration act r) = deck r"
  "useInquisitor (logDeclaration act r) = useInquisitor r"
  by (auto simp: startAction_def logDeclaration_def addLogToRoom_def clearTimeout_def Let_def
      split: option.splits)
















lemma connection_simps [simp]:
  "connection (addLogToRoom ty ch r) = connection r"
  "connection (clearActionAndTimeout r) = connection r"
  "connection (loseInfluence r i n c) = connection r"
  "connection (r\<lparr>deck := d\<rparr>) = connection r"
  "connection (r\<lparr>actionInProgress := x\<rparr>) = connection r"
  by (auto simp: connection_def addLogToRoom_def loseInfluence_def updatePlayer_def
        map_updateFirst split: option.splits)












lemma start_frame [simp]:
  "currentPlayerIndex (startAction r pl act t ad tp) = currentPlayerIndex r"
  "currentPlayerIndex (logDeclaration act r) = currentPlayerIndex r"
  "useInquisitor (startAction r pl act t ad tp) = useInquisitor r"
  by (auto simp: startAction_def logDeclaration_def addLogToRoom_def clearTimeout_def Let_def
      split: option.splits)







end
